theory Spec2Isabelle
  imports Complex_Main
begin

section \<open>Python values used by the CSV loader\<close>

text \<open>
  A dataframe cell is a Python string, or the missing value NaN that pandas stores for
  an empty field (\<open>None\<close> here).  Strings are lists of characters; the separators,
  digits, signs and white space that the loader and the conversions \<open>int\<close> and
  \<open>float\<close> look for are the ASCII ones (digits and white space beyond ASCII are
  left out).
\<close>

type_synonym cell = "string option"

datatype exn =
    ValueError
  | OverflowError
  | KeyError
  | AttributeError
  | IntegrityError
  | ParserError
  | UnicodeDecodeError
  | FileNotFoundError

definition is_space :: "char \<Rightarrow> bool" where
  \<comment> \<open>the ASCII characters for which \<open>str.isspace\<close> holds\<close>
  "is_space c = (c \<in> set [CHR 0x09, CHR 0x0A, CHR 0x0B, CHR 0x0C, CHR 0x0D,
                            CHR 0x1C, CHR 0x1D, CHR 0x1E, CHR 0x1F, CHR '' ''])"

definition is_digit :: "char \<Rightarrow> bool" where
  "is_digit c = (c \<in> set ''0123456789'')"

definition digit_val :: "char \<Rightarrow> nat" where
  "digit_val c = of_char c - 48"

definition strip :: "string \<Rightarrow> string" where
  \<comment> \<open>\<open>str.strip()\<close>\<close>
  "strip s = rev (dropWhile is_space (rev (dropWhile is_space s)))"

definition pd_isna :: "cell \<Rightarrow> bool" where
  "pd_isna c = (c = None)"

definition py_str :: "cell \<Rightarrow> string" where
  \<comment> \<open>\<open>str(value)\<close>: a string is itself, the float NaN prints as \<open>nan\<close>\<close>
  "py_str c = (case c of None \<Rightarrow> ''nan'' | Some s \<Rightarrow> s)"

fun split_on :: "char \<Rightarrow> string \<Rightarrow> string list" where
  \<comment> \<open>\<open>s.split(sep)\<close> for a one-character separator\<close>
  "split_on sep [] = [[]]"
| "split_on sep (c # cs) =
     (if c = sep then [] # split_on sep cs
      else (case split_on sep cs of
              [] \<Rightarrow> [[c]]
            | p # ps \<Rightarrow> (c # p) # ps))"

definition replace_char :: "char \<Rightarrow> char \<Rightarrow> string \<Rightarrow> string" where
  \<comment> \<open>\<open>s.replace(a, b)\<close> for one-character \<open>a\<close> and \<open>b\<close>\<close>
  "replace_char a b s = map (\<lambda>c. if c = a then b else c) s"

fun join :: "string \<Rightarrow> string list \<Rightarrow> string" where
  \<comment> \<open>\<open>sep.join(xs)\<close>\<close>
  "join sep [] = []"
| "join sep [x] = x"
| "join sep (x # y # ys) = x @ sep @ join sep (y # ys)"

subsection \<open>\<open>int(str)\<close>\<close>

fun digitpart :: "string \<Rightarrow> bool" where
  \<comment> \<open>digits, with single underscores allowed between two digits\<close>
  "digitpart [] = False"
| "digitpart [c] = is_digit c"
| "digitpart (c # d # cs) =
     (is_digit c \<and> (if d = CHR ''_'' then digitpart cs else digitpart (d # cs)))"

definition digits_value :: "string \<Rightarrow> nat" where
  "digits_value ds = foldl (\<lambda>acc c. 10 * acc + digit_val c) 0 ds"

definition int_max_str_digits :: nat where
  \<comment> \<open>\<open>sys.int_info.default_max_str_digits\<close>: a longer digit string is refused\<close>
  "int_max_str_digits = 4300"

definition py_int :: "string \<Rightarrow> exn + int" where
  \<comment> \<open>\<open>int(s)\<close> in base 10: surrounding white space, an optional sign, a digit part
      of at most \<open>int_max_str_digits\<close> digits\<close>
  "py_int s =
     (let t = strip s;
          neg = (t \<noteq> [] \<and> hd t = CHR ''-'');
          body = (if t \<noteq> [] \<and> (hd t = CHR ''-'' \<or> hd t = CHR ''+'') then tl t else t);
          digits = filter (\<lambda>c. c \<noteq> CHR ''_'') body
      in if digitpart body \<and> length digits \<le> int_max_str_digits
         then (let v = int (digits_value digits)
               in Inr (if neg then - v else v))
         else Inl ValueError)"

subsection \<open>Calendar dates\<close>

record date =
  year :: int
  month :: int
  day :: int

definition is_leap :: "int \<Rightarrow> bool" where
  "is_leap y = (y mod 4 = 0 \<and> (y mod 100 \<noteq> 0 \<or> y mod 400 = 0))"

definition days_in_month :: "int \<Rightarrow> int \<Rightarrow> int" where
  "days_in_month y m =
     (if m = 2 then (if is_leap y then 29 else 28)
      else if m \<in> {4, 6, 9, 11} then 30 else 31)"

definition fits_c_int :: "int \<Rightarrow> bool" where
  "fits_c_int n = (- 2147483648 \<le> n \<and> n \<le> 2147483647)"

definition datetime_date :: "int \<Rightarrow> int \<Rightarrow> int \<Rightarrow> exn + date" where
  \<comment> \<open>\<open>datetime(y, m, d).date()\<close>: the arguments are converted to C ints, then checked\<close>
  "datetime_date y m d =
     (if \<not> (fits_c_int y \<and> fits_c_int m \<and> fits_c_int d) then Inl OverflowError
      else if 1 \<le> y \<and> y \<le> 9999 \<and> 1 \<le> m \<and> m \<le> 12 \<and> 1 \<le> d \<and> d \<le> days_in_month y m
      then Inr \<lparr>year = y, month = m, day = d\<rparr>
      else Inl ValueError)"

definition strptime_m_ok :: "string \<Rightarrow> bool" where
  \<comment> \<open>the directive \<open>%m\<close>: \<open>1[0-2]|0[1-9]|[1-9]\<close>\<close>
  "strptime_m_ok s =
     (case s of
        [a] \<Rightarrow> is_digit a \<and> a \<noteq> CHR ''0''
      | [a, b] \<Rightarrow> (a = CHR ''1'' \<and> b \<in> set ''012'') \<or> (a = CHR ''0'' \<and> is_digit b \<and> b \<noteq> CHR ''0'')
      | _ \<Rightarrow> False)"

definition strptime_d_ok :: "string \<Rightarrow> bool" where
  \<comment> \<open>the directive \<open>%d\<close>: \<open>3[0-1]|[1-2]\d|0[1-9]|[1-9]| [1-9]\<close>\<close>
  "strptime_d_ok s =
     (case s of
        [a] \<Rightarrow> is_digit a \<and> a \<noteq> CHR ''0''
      | [a, b] \<Rightarrow> (a = CHR ''3'' \<and> b \<in> set ''01'') \<or> (a \<in> set ''12'' \<and> is_digit b)
                 \<or> ((a = CHR ''0'' \<or> a = CHR '' '') \<and> is_digit b \<and> b \<noteq> CHR ''0'')
      | _ \<Rightarrow> False)"

definition strptime_Ymd :: "string \<Rightarrow> exn + date" where
  \<comment> \<open>\<open>datetime.strptime(s, '%Y-%m-%d').date()\<close>: four digits, month and day as above,
      separated by \<open>-\<close>, nothing before or after, and a date of the calendar\<close>
  "strptime_Ymd s =
     (case split_on CHR ''-'' s of
        [y, m, d] \<Rightarrow>
          if length y = 4 \<and> list_all is_digit y \<and> strptime_m_ok m \<and> strptime_d_ok d
          then datetime_date (int (digits_value y)) (int (digits_value m))
                 (int (digits_value (filter is_digit d)))
          else Inl ValueError
      | _ \<Rightarrow> Inl ValueError)"

subsection \<open>\<open>float(str)\<close>\<close>

text \<open>
  A Python float is modelled by the exact value of the decimal literal it was read from
  (the double is the rounding of that value), or an infinity, or NaN.  Values that are
  equal in the model are the same float in Python.
\<close>

datatype pyfloat = Finite rat | Infinity bool | NaN

fun underscores_from :: "char \<Rightarrow> string \<Rightarrow> bool" where
  \<comment> \<open>the scan of the string with the previous character at hand: an underscore only
      after a digit, only a digit after an underscore, no underscore at the end\<close>
  "underscores_from prev [] = (prev \<noteq> CHR ''_'')"
| "underscores_from prev (c # cs) =
     ((if c = CHR ''_'' then is_digit prev
       else if prev = CHR ''_'' then is_digit c else True)
      \<and> underscores_from c cs)"

definition underscores_ok :: "string \<Rightarrow> bool" where
  "underscores_ok s = underscores_from (CHR 0x00) s"

fun ci_match :: "string \<Rightarrow> string \<Rightarrow> string \<Rightarrow> bool" where
  \<comment> \<open>the string equals a word, letter case ignored (the word given in both cases)\<close>
  "ci_match [] [] [] = True"
| "ci_match (c # cs) (l # ls) (u # us) = ((c = l \<or> c = u) \<and> ci_match cs ls us)"
| "ci_match _ _ _ = False"

definition exponent_ok :: "string \<Rightarrow> bool" where
  \<comment> \<open>nothing, or \<open>e\<close>, an optional sign and at least one digit\<close>
  "exponent_ok r =
     (case r of
        [] \<Rightarrow> True
      | c # cs \<Rightarrow>
          (c = CHR ''e'' \<or> c = CHR ''E'') \<and>
          (let ds = (case cs of [] \<Rightarrow> [] | x # xs \<Rightarrow> if x = CHR ''+'' \<or> x = CHR ''-'' then xs else cs)
           in ds \<noteq> [] \<and> list_all is_digit ds))"

definition exponent_value :: "string \<Rightarrow> int" where
  "exponent_value r =
     (case r of
        [] \<Rightarrow> 0
      | c # cs \<Rightarrow>
          (case cs of
             [] \<Rightarrow> 0
           | x # xs \<Rightarrow> if x = CHR ''-'' then - int (digits_value xs)
                      else if x = CHR ''+'' then int (digits_value xs)
                      else int (digits_value cs)))"

definition decimal_ok :: "string \<Rightarrow> bool" where
  \<comment> \<open>digits, an optional point and digits, with a digit on one side at least; then an
      optional exponent\<close>
  "decimal_ok b =
     (let ip = takeWhile is_digit b; r = dropWhile is_digit b
      in case r of
           [] \<Rightarrow> ip \<noteq> []
         | c # r' \<Rightarrow>
             if c = CHR ''.''
             then (ip \<noteq> [] \<or> takeWhile is_digit r' \<noteq> []) \<and> exponent_ok (dropWhile is_digit r')
             else ip \<noteq> [] \<and> exponent_ok r)"

definition decimal_value :: "string \<Rightarrow> rat" where
  "decimal_value b =
     (let ip = takeWhile is_digit b; r = dropWhile is_digit b;
          fp = (case r of [] \<Rightarrow> [] | c # r' \<Rightarrow> if c = CHR ''.'' then takeWhile is_digit r' else []);
          ex = (case r of [] \<Rightarrow> [] | c # r' \<Rightarrow> if c = CHR ''.'' then dropWhile is_digit r' else r);
          m = int (digits_value (ip @ fp));
          e = exponent_value ex - int (length fp)
      in if 0 \<le> e then of_int (m * 10 ^ nat e) else of_int m / of_int (10 ^ nat (- e)))"

definition py_float :: "string \<Rightarrow> exn + pyfloat" where
  \<comment> \<open>\<open>float(s)\<close>: surrounding white space, underscores between digits, an optional
      sign, then \<open>inf\<close>, \<open>infinity\<close>, \<open>nan\<close> or a decimal literal\<close>
  "py_float s =
     (let t = strip s in
      if underscores_ok t then
        let u = filter (\<lambda>c. c \<noteq> CHR ''_'') t;
            neg = (u \<noteq> [] \<and> hd u = CHR ''-'');
            b = (if u \<noteq> [] \<and> (hd u = CHR ''-'' \<or> hd u = CHR ''+'') then tl u else u)
        in if ci_match b ''inf'' ''INF'' \<or> ci_match b ''infinity'' ''INFINITY'' then Inr (Infinity neg)
           else if ci_match b ''nan'' ''NAN'' then Inr NaN
           else if decimal_ok b
           then Inr (Finite (if neg then - decimal_value b else decimal_value b))
           else Inl ValueError
      else Inl ValueError)"

section \<open>Field normalisers of \<open>CSVLoader\<close>\<close>

definition parse_date :: "cell \<Rightarrow> exn + date" where
  \<comment> \<open>\<open>CSVLoader._parse_date\<close>\<close>
  "parse_date fecha =
     (if pd_isna fecha \<or> strip (py_str fecha) = [] then Inl ValueError
      else let fecha_str = strip (py_str fecha) in
        if CHR ''/'' \<in> set fecha_str then
          (case split_on CHR ''/'' fecha_str of
             [d, m, y] \<Rightarrow>
               (case py_int y of
                  Inl e \<Rightarrow> Inl e
                | Inr yr \<Rightarrow>
                    (let yr' = (if length y = 2
                                then (if yr > 50 then 1900 + yr else 2000 + yr)
                                else yr)
                     in case py_int m of
                          Inl e \<Rightarrow> Inl e
                        | Inr mo \<Rightarrow>
                            (case py_int d of
                               Inl e \<Rightarrow> Inl e
                             | Inr dy \<Rightarrow> datetime_date yr' mo dy)))
           | _ \<Rightarrow> Inl ValueError)
        else if CHR ''-'' \<in> set fecha_str then strptime_Ymd fecha_str
        else Inl ValueError)"

definition is_point :: "char \<Rightarrow> bool" where
  "is_point c = (c = CHR ''.'')"

definition safe_float_conversion :: "cell \<Rightarrow> exn + pyfloat" where
  \<comment> \<open>\<open>CSVLoader._safe_float_conversion\<close>; the handler catches \<open>ValueError\<close> and
      \<open>TypeError\<close> only, any other exception would leave the function\<close>
  "safe_float_conversion v =
     (if pd_isna v \<or> strip (py_str v) = [] then Inr (Finite 0)
      else let value_str = replace_char CHR '','' CHR ''.'' (py_str v) in
        case py_float value_str of
          Inr x \<Rightarrow> Inr x
        | Inl e \<Rightarrow> if e = ValueError then Inr (Finite 0) else Inl e)"

section \<open>Dataframes\<close>

text \<open>
  A \<open>pandas.DataFrame\<close> is its column names and its rows; every row has one cell per
  column.  A column is selected by its name, for column names that do not repeat (as
  \<open>read_csv\<close> makes them).  The readers of pandas (\<open>read_csv\<close>) and of the
  standard library (\<open>open\<close>, \<open>csv.reader\<close>) are not part of this repository:
  their results on the file at hand are the fields of the environment below.
\<close>

record dataframe =
  columns :: "string list"
  rows :: "cell list list"

definition pad_row :: "nat \<Rightarrow> string list \<Rightarrow> cell list" where
  "pad_row k r = map Some r @ replicate (k - length r) None"

definition DataFrame :: "string list list \<Rightarrow> string list \<Rightarrow> exn + dataframe" where
  \<comment> \<open>\<open>pd.DataFrame(data, columns=headers)\<close> on a list of rows: the width of the data
      is that of its longest row, shorter rows are filled with the missing value, and
      the width must be the number of column names\<close>
  "DataFrame data hs =
     (if data = [] then Inr \<lparr>columns = hs, rows = []\<rparr>
      else if fold max (map length data) 0 = length hs
      then Inr \<lparr>columns = hs, rows = map (pad_row (length hs)) data\<rparr>
      else Inl ValueError)"

fun index_of :: "'a \<Rightarrow> 'a list \<Rightarrow> nat" where
  "index_of x [] = 0"
| "index_of x (y # ys) = (if x = y then 0 else Suc (index_of x ys))"

definition cell_at :: "cell list \<Rightarrow> nat \<Rightarrow> cell" where
  "cell_at r i = (if i < length r then r ! i else None)"

definition row_get :: "dataframe \<Rightarrow> cell list \<Rightarrow> string \<Rightarrow> exn + cell" where
  \<comment> \<open>\<open>row[c]\<close> for a row of \<open>df.iterrows()\<close>\<close>
  "row_get df r c =
     (if c \<in> set (columns df) then Inr (cell_at r (index_of c (columns df)))
      else Inl KeyError)"

definition column_values :: "dataframe \<Rightarrow> string \<Rightarrow> cell list" where
  \<comment> \<open>\<open>df[c]\<close> for a column that exists\<close>
  "column_values df c = map (\<lambda>r. cell_at r (index_of c (columns df))) (rows df)"

definition dropna :: "cell list \<Rightarrow> string list" where
  "dropna cs = List.map_filter (\<lambda>c. c) cs"

definition unique :: "'a list \<Rightarrow> 'a list" where
  \<comment> \<open>\<open>Series.unique()\<close>: the distinct values in the order of their first appearance\<close>
  "unique xs = rev (remdups (rev xs))"

section \<open>The line-by-line reader\<close>

definition py_slice_to :: "int \<Rightarrow> 'a list \<Rightarrow> 'a list" where
  \<comment> \<open>\<open>xs[:i]\<close>; a negative index counts from the end\<close>
  "py_slice_to i xs = (if i < 0 then take (length xs - nat (- i)) xs else take (nat i) xs)"

definition py_slice_from :: "int \<Rightarrow> 'a list \<Rightarrow> 'a list" where
  \<comment> \<open>\<open>xs[i:]\<close>\<close>
  "py_slice_from i xs = (if i < 0 then drop (length xs - nat (- i)) xs else drop (nat i) xs)"

record reader_state =
  headers :: "string list option"
  valid_rows :: "string list list"
  problematic_lines :: "nat list"

definition process_line :: "nat \<times> string list \<Rightarrow> reader_state \<Rightarrow> reader_state" where
  \<comment> \<open>the body of the loop of \<open>_read_csv_line_by_line\<close>; without a header
      \<open>expected_cols\<close> is unbound and the handler of the loop records the line\<close>
  "process_line numbered st =
     (let line_num = fst numbered; row = snd numbered in
      if line_num = 1 then st\<lparr>headers := Some row\<rparr>
      else
        (case headers st of
           None \<Rightarrow> st\<lparr>problematic_lines := problematic_lines st @ [line_num]\<rparr>
         | Some hs \<Rightarrow>
             (let expected_cols = length hs in
              if length row = expected_cols then st\<lparr>valid_rows := valid_rows st @ [row]\<rparr>
              else
                (let st' = st\<lparr>problematic_lines := problematic_lines st @ [line_num]\<rparr> in
                 if length row > expected_cols
                 then st'\<lparr>valid_rows := valid_rows st' @
                        [py_slice_to (int expected_cols - 1) row
                           @ [join '';'' (py_slice_from (int expected_cols - 1) row)]]\<rparr>
                 else if length row < expected_cols
                 then st'\<lparr>valid_rows := valid_rows st' @
                        [row @ replicate (expected_cols - length row) '''']\<rparr>
                 else st'))))"

definition enumerate1 :: "'a list \<Rightarrow> (nat \<times> 'a) list" where
  \<comment> \<open>\<open>enumerate(xs, 1)\<close>\<close>
  "enumerate1 xs = enumerate 1 xs"

definition line_by_line_loop :: "string list list \<Rightarrow> reader_state" where
  "line_by_line_loop lines =
     fold process_line (enumerate1 lines)
       \<lparr>headers = None, valid_rows = [], problematic_lines = []\<rparr>"

definition read_csv_line_by_line :: "exn + string list list \<Rightarrow> exn + dataframe" where
  \<comment> \<open>\<open>CSVLoader._read_csv_line_by_line\<close>, on the rows \<open>csv.reader\<close> yields for the
      file opened as UTF-8 (or the exception of \<open>open\<close> and of the decoding, which
      leaves the function)\<close>
  "read_csv_line_by_line reader =
     (case reader of
        Inl e \<Rightarrow> Inl e
      | Inr lines \<Rightarrow>
          (let st = line_by_line_loop lines
           in DataFrame (valid_rows st) (case headers st of None \<Rightarrow> [] | Some hs \<Rightarrow> hs)))"

definition repair_spec :: "nat \<Rightarrow> string list \<Rightarrow> string list" where
  \<comment> \<open>the repair as the specification words it: with \<open>k\<close> header fields, a longer line
      keeps its first \<open>k - 1\<close> fields and has the rest re-joined with the delimiter as
      its \<open>k\<close>-th field, a shorter line gets \<open>k - n\<close> empty fields at its end\<close>
  "repair_spec k row =
     (if length row > k then take (k - 1) row @ [join '';'' (drop (k - 1) row)]
      else row @ replicate (k - length row) '''')"

section \<open>The decoder \<open>_read_csv_robust\<close>\<close>

record environment =
  path_exists :: bool
  read_csv_basic :: "exn + dataframe"
  read_csv_quoting :: "exn + dataframe"
  csv_reader :: "exn + string list list"
  read_csv_encoding :: "string \<Rightarrow> exn + dataframe"
  create_all :: "exn option"

definition encodings :: "string list" where
  "encodings = [''utf-8'', ''latin-1'', ''cp1252'', ''iso-8859-1'']"

fun try_encodings :: "environment \<Rightarrow> string list \<Rightarrow> dataframe option" where
  "try_encodings env [] = None"
| "try_encodings env (encoding # es) =
     (case read_csv_encoding env encoding of
        Inr df \<Rightarrow> Some df
      | Inl e \<Rightarrow> try_encodings env es)"

definition read_csv_robust :: "environment \<Rightarrow> dataframe option" where
  \<comment> \<open>\<open>CSVLoader._read_csv_robust\<close>: each strategy returns its dataframe unless it
      raises\<close>
  "read_csv_robust env =
     (case read_csv_basic env of
        Inr df \<Rightarrow> Some df
      | Inl e1 \<Rightarrow>
          (case read_csv_quoting env of
             Inr df \<Rightarrow> Some df
           | Inl e2 \<Rightarrow>
               (case read_csv_line_by_line (csv_reader env) of
                  Inr df \<Rightarrow> Some df
                | Inl e3 \<Rightarrow> try_encodings env encodings)))"

fun first_success :: "(exn + dataframe) list \<Rightarrow> dataframe option" where
  \<comment> \<open>the result of the first attempt of a list that did not raise\<close>
  "first_success [] = None"
| "first_success (Inr df # as) = Some df"
| "first_success (Inl e # as) = first_success as"

definition blank_line_env :: environment where
  \<comment> \<open>the file \<open>a;b\<close>, newline, newline: pandas skips the blank line and reads no row,
      \<open>csv.reader\<close> yields the header and an empty row\<close>
  "blank_line_env =
     \<lparr>path_exists = True,
      read_csv_basic = Inr \<lparr>columns = [''a'', ''b''], rows = []\<rparr>,
      read_csv_quoting = Inr \<lparr>columns = [''a'', ''b''], rows = []\<rparr>,
      csv_reader = Inr [[''a'', ''b''], []],
      read_csv_encoding = (\<lambda>enc. Inr \<lparr>columns = [''a'', ''b''], rows = []\<rparr>),
      create_all = None\<rparr>"

section \<open>The database and the session\<close>

text \<open>
  The tables of \<open>models.py\<close>, as lists of rows in the order of insertion; a row of a
  reference table is its \<open>id\<close> and its \<open>nombre\<close> (its \<open>codigo\<close> for
  \<open>codigos_sac\<close>).  A session (\<open>SessionLocal\<close>, made with \<open>autoflush=False\<close>) is
  the database and the objects added since the last commit: a query does not flush, so
  it reads the rows of the database only.
\<close>

record declaracion =
  correlativo :: cell
  fecha_declaracion :: date
  tipo_cambio_dolar :: pyfloat
  descripcion :: cell
  cantidad_fraccion :: pyfloat
  tasa_dai :: pyfloat
  valor_dai :: pyfloat
  valor_cif_usd :: pyfloat
  tasa_cif_cantidad_fraccion :: pyfloat
  aduana_id :: nat
  pais_id :: nat
  tipo_regimen_id :: nat
  unidad_medida_id :: nat
  codigo_sac_id :: nat

type_synonym ref_table = "(nat \<times> string) list"

record database =
  aduanas :: ref_table
  paises :: ref_table
  tipos_regimen :: ref_table
  unidades_medida :: ref_table
  codigos_sac :: ref_table
  declaraciones_importacion :: "(nat \<times> declaracion) list"

datatype pending =
    NewAduana string
  | NewPais string
  | NewTipoRegimen string
  | NewUnidadMedida string
  | NewCodigoSAC string
  | NewDeclaracion declaracion

record session =
  store :: database
  new :: "pending list"

definition next_id :: "(nat \<times> 'a) list \<Rightarrow> nat" where
  \<comment> \<open>the integer primary key of a new row: one more than the largest in the table\<close>
  "next_id tbl = Suc (fold max (map fst tbl) 0)"

definition query_first :: "ref_table \<Rightarrow> cell \<Rightarrow> (nat \<times> string) option" where
  \<comment> \<open>\<open>db.query(T).filter(T.nombre == v).first()\<close>; a comparison with the missing
      value holds for no row\<close>
  "query_first tbl v = (case v of None \<Rightarrow> None | Some s \<Rightarrow> find (\<lambda>r. snd r = s) tbl)"

definition sql_eq :: "cell \<Rightarrow> cell \<Rightarrow> bool" where
  \<comment> \<open>the SQL comparison of a column with a bound value\<close>
  "sql_eq column_value v =
     (case column_value of
        None \<Rightarrow> False
      | Some a \<Rightarrow> (case v of None \<Rightarrow> False | Some b \<Rightarrow> a = b))"

definition query_existing ::
  "(nat \<times> declaracion) list \<Rightarrow> cell \<Rightarrow> nat \<Rightarrow> cell \<Rightarrow> (nat \<times> declaracion) option" where
  \<comment> \<open>the query \<open>existing\<close> of \<open>_load_declarations\<close>\<close>
  "query_existing tbl corr sac_id descr =
     find (\<lambda>r. sql_eq (correlativo (snd r)) corr \<and> codigo_sac_id (snd r) = sac_id
                \<and> sql_eq (descripcion (snd r)) descr) tbl"

definition add :: "pending \<Rightarrow> session \<Rightarrow> session" where
  \<comment> \<open>\<open>db.add(obj)\<close>\<close>
  "add obj s = s\<lparr>new := new s @ [obj]\<rparr>"

definition insert_ref :: "ref_table \<Rightarrow> string \<Rightarrow> exn + ref_table" where
  \<comment> \<open>INSERT into a reference table; the name column is \<open>unique=True\<close>\<close>
  "insert_ref tbl name =
     (if name \<in> snd ` set tbl then Inl IntegrityError
      else Inr (tbl @ [(next_id tbl, name)]))"

definition floats_of :: "declaracion \<Rightarrow> pyfloat list" where
  "floats_of d =
     [tipo_cambio_dolar d, cantidad_fraccion d, tasa_dai d, valor_dai d, valor_cif_usd d,
      tasa_cif_cantidad_fraccion d]"

definition insert_declaracion ::
  "(nat \<times> declaracion) list \<Rightarrow> declaracion \<Rightarrow> exn + (nat \<times> declaracion) list" where
  \<comment> \<open>INSERT into \<open>declaraciones_importacion\<close>; every column is \<open>nullable=False\<close>, and
      SQLite stores a NaN as NULL\<close>
  "insert_declaracion tbl d =
     (if correlativo d = None \<or> descripcion d = None \<or> NaN \<in> set (floats_of d)
      then Inl IntegrityError
      else Inr (tbl @ [(next_id tbl, d)]))"

definition map_sum :: "('a \<Rightarrow> 'b) \<Rightarrow> exn + 'a \<Rightarrow> exn + 'b" where
  "map_sum f r = (case r of Inl e \<Rightarrow> Inl e | Inr x \<Rightarrow> Inr (f x))"

fun is_declaracion :: "pending \<Rightarrow> bool" where
  "is_declaracion (NewDeclaracion d) = True"
| "is_declaracion obj = False"

fun flush_one :: "pending \<Rightarrow> database \<Rightarrow> exn + database" where
  "flush_one (NewAduana n) db = map_sum (\<lambda>t. db\<lparr>aduanas := t\<rparr>) (insert_ref (aduanas db) n)"
| "flush_one (NewPais n) db = map_sum (\<lambda>t. db\<lparr>paises := t\<rparr>) (insert_ref (paises db) n)"
| "flush_one (NewTipoRegimen n) db =
     map_sum (\<lambda>t. db\<lparr>tipos_regimen := t\<rparr>) (insert_ref (tipos_regimen db) n)"
| "flush_one (NewUnidadMedida n) db =
     map_sum (\<lambda>t. db\<lparr>unidades_medida := t\<rparr>) (insert_ref (unidades_medida db) n)"
| "flush_one (NewCodigoSAC n) db =
     map_sum (\<lambda>t. db\<lparr>codigos_sac := t\<rparr>) (insert_ref (codigos_sac db) n)"
| "flush_one (NewDeclaracion d) db =
     map_sum (\<lambda>t. db\<lparr>declaraciones_importacion := t\<rparr>)
       (insert_declaracion (declaraciones_importacion db) d)"

fun flush :: "pending list \<Rightarrow> database \<Rightarrow> exn + database" where
  "flush [] db = Inr db"
| "flush (obj # objs) db =
     (case flush_one obj db of Inl e \<Rightarrow> Inl e | Inr db' \<Rightarrow> flush objs db')"

definition commit :: "session \<Rightarrow> (exn + unit) \<times> session" where
  \<comment> \<open>\<open>db.commit()\<close>: all pending objects are written, or the exception leaves the
      session as it was, to be rolled back\<close>
  "commit s =
     (case flush (new s) (store s) of
        Inl e \<Rightarrow> (Inl e, s)
      | Inr db \<Rightarrow> (Inr (), \<lparr>store = db, new = []\<rparr>))"

definition rollback :: "session \<Rightarrow> session" where
  "rollback s = s\<lparr>new := []\<rparr>"

definition close :: "session \<Rightarrow> session" where
  "close s = s\<lparr>new := []\<rparr>"

section \<open>Loading the reference tables: \<open>_load_master_data\<close>\<close>

definition required_columns :: "string list" where
  "required_columns = [''aduana'', ''pais'', ''tipo_regimen'', ''tipo_unidad_medida'', ''sac'']"

definition add_if_absent ::
  "(database \<Rightarrow> ref_table) \<Rightarrow> (string \<Rightarrow> pending) \<Rightarrow> string \<Rightarrow> session \<Rightarrow> session" where
  \<comment> \<open>the body of each of the five loops: query by name, add when no row is found\<close>
  "add_if_absent table mk name s =
     (if query_first (table (store s)) (Some name) = None then add (mk name) s else s)"

definition load_category ::
  "(database \<Rightarrow> ref_table) \<Rightarrow> (string \<Rightarrow> pending) \<Rightarrow> dataframe \<Rightarrow> string \<Rightarrow> session \<Rightarrow> session" where
  \<comment> \<open>\<open>for name in df[col].dropna().unique(): ...\<close>\<close>
  "load_category table mk df col s =
     fold (add_if_absent table mk) (unique (dropna (column_values df col))) s"

definition load_master_data :: "dataframe \<Rightarrow> session \<Rightarrow> (exn + unit) \<times> session" where
  \<comment> \<open>\<open>CSVLoader._load_master_data\<close>\<close>
  "load_master_data df s =
     (let missing_columns = filter (\<lambda>c. c \<notin> set (columns df)) required_columns in
      if missing_columns \<noteq> [] then (Inr (), s)
      else
        commit
          (load_category codigos_sac NewCodigoSAC df ''sac''
            (load_category unidades_medida NewUnidadMedida df ''tipo_unidad_medida''
              (load_category tipos_regimen NewTipoRegimen df ''tipo_regimen''
                (load_category paises NewPais df ''pais''
                  (load_category aduanas NewAduana df ''aduana'' s))))))"

section \<open>Loading the declarations: \<open>_load_declarations\<close>\<close>

datatype row_outcome = Staged declaracion | Skipped | Rejected

definition bind :: "exn + 'a \<Rightarrow> ('a \<Rightarrow> exn + 'b) \<Rightarrow> exn + 'b" where
  "bind r f = (case r of Inl e \<Rightarrow> Inl e | Inr x \<Rightarrow> f x)"

definition float_field :: "dataframe \<Rightarrow> cell list \<Rightarrow> string \<Rightarrow> exn + pyfloat" where
  \<comment> \<open>\<open>self._safe_float_conversion(row[c])\<close>\<close>
  "float_field df r c = bind (row_get df r c) safe_float_conversion"

definition make_declaracion ::
  "dataframe \<Rightarrow> cell list \<Rightarrow> date \<Rightarrow> nat \<Rightarrow> nat \<Rightarrow> nat \<Rightarrow> nat \<Rightarrow> nat \<Rightarrow> exn + declaracion" where
  \<comment> \<open>the constructor call \<open>DeclaracionImportacion(...)\<close>, its arguments evaluated in
      order; a column that is missing raises \<open>KeyError\<close>\<close>
  "make_declaracion df r fecha a p g u c =
     bind (row_get df r ''correlativo'') (\<lambda>corr.
     bind (float_field df r ''tipo_cambio_dolar'') (\<lambda>tc.
     bind (row_get df r ''descripcion'') (\<lambda>descr.
     bind (float_field df r ''cantidad_fraccion'') (\<lambda>cf.
     bind (float_field df r ''tasa_dai'') (\<lambda>td.
     bind (float_field df r ''valor_dai'') (\<lambda>vd.
     bind (float_field df r ''valor_cif_uds'') (\<lambda>vc.
     bind (float_field df r ''tasa_cif_cantidad_fraccion'') (\<lambda>tf.
       Inr \<lparr>correlativo = corr, fecha_declaracion = fecha, tipo_cambio_dolar = tc,
            descripcion = descr, cantidad_fraccion = cf, tasa_dai = td, valor_dai = vd,
            valor_cif_usd = vc, tasa_cif_cantidad_fraccion = tf,
            aduana_id = a, pais_id = p, tipo_regimen_id = g, unidad_medida_id = u,
            codigo_sac_id = c\<rparr>))))))))"

definition resolve_references ::
  "database \<Rightarrow> dataframe \<Rightarrow> cell list \<Rightarrow> (nat \<times> nat \<times> nat \<times> nat \<times> nat) option" where
  \<comment> \<open>the five reference queries of a row whose reference columns exist, and the test
      \<open>all([aduana, pais, regimen, unidad, sac])\<close>: the five ids, or nothing when a
      query found no row\<close>
  "resolve_references db df r =
     (case (query_first (aduanas db) (cell_at r (index_of ''aduana'' (columns df))),
            query_first (paises db) (cell_at r (index_of ''pais'' (columns df))),
            query_first (tipos_regimen db) (cell_at r (index_of ''tipo_regimen'' (columns df))),
            query_first (unidades_medida db)
              (cell_at r (index_of ''tipo_unidad_medida'' (columns df))),
            query_first (codigos_sac db)
              (Some (py_str (cell_at r (index_of ''sac'' (columns df)))))) of
        (Some aduana, Some pais, Some regimen, Some unidad, Some sac) \<Rightarrow>
          Some (fst aduana, fst pais, fst regimen, fst unidad, fst sac)
      | _ \<Rightarrow> None)"

definition key_fields :: "dataframe \<Rightarrow> cell list \<Rightarrow> exn + cell \<times> cell" where
  \<comment> \<open>\<open>row['correlativo']\<close> and \<open>row['descripcion']\<close>, read for the duplicate query\<close>
  "key_fields df r =
     bind (row_get df r ''correlativo'') (\<lambda>corr.
     bind (row_get df r ''descripcion'') (\<lambda>descr. Inr (corr, descr)))"

definition process_row :: "database \<Rightarrow> dataframe \<Rightarrow> cell list \<Rightarrow> row_outcome" where
  \<comment> \<open>the body of the loop of \<open>_load_declarations\<close>; every exception is caught by the
      handlers of the loop and counts the row as an error\<close>
  "process_row db df r =
     (if list_all (\<lambda>c. c \<in> set (columns df)) required_columns then
        (case resolve_references db df r of
           None \<Rightarrow> Rejected
         | Some ids \<Rightarrow>
             (case bind (row_get df r ''fecha_declaracion'') parse_date of
                Inl e \<Rightarrow> Rejected
              | Inr fecha \<Rightarrow>
                  (case key_fields df r of
                     Inl e \<Rightarrow> Rejected
                   | Inr key \<Rightarrow>
                       (case query_existing (declaraciones_importacion db) (fst key)
                               (snd (snd (snd (snd ids)))) (snd key) of
                          Some existing \<Rightarrow> Skipped
                        | None \<Rightarrow>
                            (case make_declaracion df r fecha (fst ids) (fst (snd ids))
                                    (fst (snd (snd ids))) (fst (snd (snd (snd ids))))
                                    (snd (snd (snd (snd ids)))) of
                               Inl e \<Rightarrow> Rejected
                             | Inr declaracion \<Rightarrow> Staged declaracion)))))
      else Rejected)"

definition row_key :: "dataframe \<Rightarrow> cell list \<Rightarrow> (exn + cell) \<times> (exn + string) \<times> (exn + cell)" where
  \<comment> \<open>the values of a row that decide its natural key: \<open>row['correlativo']\<close>,
      \<open>str(row['sac'])\<close> and \<open>row['descripcion']\<close>\<close>
  "row_key df r =
     (row_get df r ''correlativo'', map_sum py_str (row_get df r ''sac''),
      row_get df r ''descripcion'')"

definition staged_row :: "database \<Rightarrow> dataframe \<Rightarrow> cell list \<Rightarrow> declaracion option" where
  "staged_row db df r = (case process_row db df r of Staged d \<Rightarrow> Some d | _ \<Rightarrow> None)"

definition staged :: "database \<Rightarrow> dataframe \<Rightarrow> cell list list \<Rightarrow> declaracion list" where
  \<comment> \<open>the records a pass over the rows stages, in order\<close>
  "staged db df rs = List.map_filter (staged_row db df) rs"

record load_state =
  db_session :: session
  success_count :: nat
  error_count :: nat

definition declarations_step :: "dataframe \<Rightarrow> cell list \<Rightarrow> load_state \<Rightarrow> load_state" where
  "declarations_step df r st =
     (case process_row (store (db_session st)) df r of
        Staged d \<Rightarrow> st\<lparr>db_session := add (NewDeclaracion d) (db_session st),
                       success_count := Suc (success_count st)\<rparr>
      | Skipped \<Rightarrow> st
      | Rejected \<Rightarrow> st\<lparr>error_count := Suc (error_count st)\<rparr>)"

definition declarations_loop :: "dataframe \<Rightarrow> session \<Rightarrow> load_state" where
  "declarations_loop df s =
     fold (declarations_step df) (rows df) \<lparr>db_session = s, success_count = 0, error_count = 0\<rparr>"

definition load_declarations :: "dataframe \<Rightarrow> session \<Rightarrow> (exn + unit) \<times> session" where
  \<comment> \<open>\<open>CSVLoader._load_declarations\<close>\<close>
  "load_declarations df s = commit (db_session (declarations_loop df s))"

definition decl_key :: "declaracion \<Rightarrow> cell \<times> nat \<times> cell" where
  \<comment> \<open>the natural key \<open>(correlativo, codigo_sac_id, descripcion)\<close>\<close>
  "decl_key d = (correlativo d, codigo_sac_id d, descripcion d)"

section \<open>The entry point: \<open>load_csv_data\<close>\<close>

datatype message = CouldNotReadCSV | StrOf exn

datatype py_result = PyNone | StatusSuccess nat | StatusError message

definition CSVLoader_attributes :: "string list" where
  \<comment> \<open>the attributes of a \<open>CSVLoader\<close> object: the two set by \<open>__init__\<close> and the
      methods the class defines\<close>
  "CSVLoader_attributes =
     [''csv_file_path'', ''db'', ''__init__'', ''load_csv_data'', ''_read_csv_robust'',
      ''_read_csv_line_by_line'', ''_diagnose_csv_issues'', ''_load_master_data'',
      ''_load_declarations'', ''_parse_date'', ''_safe_float_conversion'',
      ''_load_sample_data'']"

definition getattr_self :: "string \<Rightarrow> exn + unit" where
  \<comment> \<open>the attribute lookup \<open>self.name\<close>\<close>
  "getattr_self name = (if name \<in> set CSVLoader_attributes then Inr () else Inl AttributeError)"

definition load_sample_data :: "session \<Rightarrow> py_result \<times> session" where
  \<comment> \<open>\<open>CSVLoader._load_sample_data\<close>: its body is \<open>pass\<close>\<close>
  "load_sample_data s = (PyNone, s)"

definition try_block :: "environment \<Rightarrow> session \<Rightarrow> (exn + py_result) \<times> session" where
  \<comment> \<open>the \<open>try\<close> block of \<open>load_csv_data\<close>: the value returned, or the exception
      raised, and the session at that moment\<close>
  "try_block env s =
     (if \<not> path_exists env then (Inr (fst (load_sample_data s)), snd (load_sample_data s))
      else
        (case read_csv_robust env of
           None \<Rightarrow> (Inr (StatusError CouldNotReadCSV), s)
         | Some df \<Rightarrow>
             (case create_all env of
                Some e \<Rightarrow> (Inl e, s)
              | None \<Rightarrow>
                  (case getattr_self ''_clean_existing_data'' of
                     Inl e \<Rightarrow> (Inl e, s)
                   | Inr u \<Rightarrow>
                       (case load_master_data df s of
                          (Inl e, s1) \<Rightarrow> (Inl e, s1)
                        | (Inr u1, s1) \<Rightarrow>
                            (case load_declarations df s1 of
                               (Inl e, s2) \<Rightarrow> (Inl e, s2)
                             | (Inr u2, s2) \<Rightarrow>
                                 (Inr (StatusSuccess (length (rows df))), s2)))))))"

definition load_csv_data :: "environment \<Rightarrow> database \<Rightarrow> py_result \<times> database" where
  \<comment> \<open>\<open>CSVLoader(path).load_csv_data()\<close>: a new session, the \<open>try\<close> block, the handler
      of \<open>Exception\<close> (rollback, error result) and the \<open>finally\<close> clause (close)\<close>
  "load_csv_data env db =
     (let s = \<lparr>store = db, new = []\<rparr>;
          r = try_block env s;
          handled = (case fst r of
                       Inr v \<Rightarrow> (v, snd r)
                     | Inl e \<Rightarrow> (StatusError (StrOf e), rollback (snd r)))
      in (fst handled, store (close (snd handled))))"

definition load_passes :: "dataframe \<Rightarrow> session \<Rightarrow> (exn + unit) \<times> session" where
  \<comment> \<open>the two loading passes in the order of \<open>load_csv_data\<close>\<close>
  "load_passes df s =
     (case load_master_data df s of
        (Inl e, s1) \<Rightarrow> (Inl e, s1)
      | (Inr u, s1) \<Rightarrow> load_declarations df s1)"

definition empty_db :: database where
  "empty_db =
     \<lparr>aduanas = [], paises = [], tipos_regimen = [], unidades_medida = [], codigos_sac = [],
      declaraciones_importacion = []\<rparr>"

definition missing_file_env :: environment where
  \<comment> \<open>a path at which no file exists: nothing can be read\<close>
  "missing_file_env =
     \<lparr>path_exists = False,
      read_csv_basic = Inl FileNotFoundError,
      read_csv_quoting = Inl FileNotFoundError,
      csv_reader = Inl FileNotFoundError,
      read_csv_encoding = (\<lambda>enc. Inl FileNotFoundError),
      create_all = None\<rparr>"

section \<open>Example data\<close>

definition example_columns :: "string list" where
  "example_columns =
     [''aduana'', ''pais'', ''tipo_regimen'', ''tipo_unidad_medida'', ''sac'', ''correlativo'',
      ''fecha_declaracion'', ''tipo_cambio_dolar'', ''descripcion'', ''cantidad_fraccion'',
      ''tasa_dai'', ''valor_dai'', ''valor_cif_uds'', ''tasa_cif_cantidad_fraccion'']"

definition example_row :: "string \<Rightarrow> cell list" where
  \<comment> \<open>a well-formed row with the given \<open>correlativo\<close>\<close>
  "example_row corr =
     map Some [''PuertoX'', ''CountryY'', ''Import'', ''KG'', ''1234'', corr, ''15/03/49'',
               ''0'', ''tela'', ''0'', ''0'', ''0'', ''0'', ''0'']"

definition example_declaracion :: "string \<Rightarrow> declaracion" where
  "example_declaracion corr =
     \<lparr>correlativo = Some corr, fecha_declaracion = \<lparr>year = 2049, month = 3, day = 15\<rparr>,
      tipo_cambio_dolar = Finite 0, descripcion = Some ''tela'', cantidad_fraccion = Finite 0,
      tasa_dai = Finite 0, valor_dai = Finite 0, valor_cif_usd = Finite 0,
      tasa_cif_cantidad_fraccion = Finite 0, aduana_id = 1, pais_id = 1, tipo_regimen_id = 1,
      unidad_medida_id = 1, codigo_sac_id = 1\<rparr>"

definition reference_db :: database where
  \<comment> \<open>the database after the reference pass over the example rows: no declaration yet\<close>
  "reference_db =
     \<lparr>aduanas = [(1, ''PuertoX'')], paises = [(1, ''CountryY'')], tipos_regimen = [(1, ''Import'')],
      unidades_medida = [(1, ''KG'')], codigos_sac = [(1, ''1234'')],
      declaraciones_importacion = []\<rparr>"

definition duplicate_df :: dataframe where
  \<comment> \<open>a file with the same row twice\<close>
  "duplicate_df =
     \<lparr>columns = example_columns, rows = [example_row ''COR001'', example_row ''COR001'']\<rparr>"

definition distinct_df :: dataframe where
  \<comment> \<open>a file with two rows of different natural keys\<close>
  "distinct_df =
     \<lparr>columns = example_columns, rows = [example_row ''COR001'', example_row ''COR002'']\<rparr>"

definition single_df :: dataframe where
  \<comment> \<open>a file with one well-formed row\<close>
  "single_df = \<lparr>columns = example_columns, rows = [example_row ''COR001'']\<rparr>"

definition loaded_db :: database where
  \<comment> \<open>the database after both passes over \<open>single_df\<close>, from the empty database\<close>
  "loaded_db =
     reference_db\<lparr>declaraciones_importacion := [(1, example_declaracion ''COR001'')]\<rparr>"

definition single_file_env :: environment where
  \<comment> \<open>a file that the first read strategy decodes to \<open>single_df\<close>\<close>
  "single_file_env =
     \<lparr>path_exists = True,
      read_csv_basic = Inr single_df,
      read_csv_quoting = Inr single_df,
      csv_reader = Inr (example_columns # [map the (example_row ''COR001'')]),
      read_csv_encoding = (\<lambda>enc. Inr single_df),
      create_all = None\<rparr>"

definition absent :: "ref_table \<Rightarrow> dataframe \<Rightarrow> string \<Rightarrow> string list" where
  \<comment> \<open>the names of a column that a reference table does not hold yet\<close>
  "absent tbl df col = filter (\<lambda>n. n \<notin> snd ` set tbl) (unique (dropna (column_values df col)))"

definition names_loaded :: "dataframe \<Rightarrow> database \<Rightarrow> bool" where
  \<comment> \<open>every name of the five reference columns is in its table\<close>
  "names_loaded df db =
     (set (unique (dropna (column_values df ''aduana''))) \<subseteq> snd ` set (aduanas db)
      \<and> set (unique (dropna (column_values df ''pais''))) \<subseteq> snd ` set (paises db)
      \<and> set (unique (dropna (column_values df ''tipo_regimen''))) \<subseteq> snd ` set (tipos_regimen db)
      \<and> set (unique (dropna (column_values df ''tipo_unidad_medida'')))
           \<subseteq> snd ` set (unidades_medida db)
      \<and> set (unique (dropna (column_values df ''sac''))) \<subseteq> snd ` set (codigos_sac db))"

section \<open>Properties of the string functions\<close>

lemma is_digit_iff:
  "is_digit c = (c = CHR ''0'' \<or> c = CHR ''1'' \<or> c = CHR ''2'' \<or> c = CHR ''3'' \<or> c = CHR ''4''
     \<or> c = CHR ''5'' \<or> c = CHR ''6'' \<or> c = CHR ''7'' \<or> c = CHR ''8'' \<or> c = CHR ''9'')"
  by (simp add: is_digit_def)



lemma split_on_not_Nil: "split_on sep s \<noteq> []"
  by (induction s) (auto split: list.splits)





lemma list_all_dropWhile: "list_all P (dropWhile P s) = list_all P s"
  by (induction s) auto

lemma strip_Nil_iff: "strip s = [] \<longleftrightarrow> list_all is_space s"
proof -
  have "strip s = [] \<longleftrightarrow> list_all is_space (dropWhile is_space s)"
    by (simp add: strip_def dropWhile_eq_Nil_conv list_all_iff)
  then show ?thesis by (simp add: list_all_dropWhile)
qed

lemma filter_dropWhile_disjoint:
  "(\<And>c. P c \<Longrightarrow> \<not> Q c) \<Longrightarrow> filter P (dropWhile Q s) = filter P s"
  by (induction s) auto

lemma filter_strip:
  assumes "\<And>c. P c \<Longrightarrow> \<not> is_space c"
  shows "filter P (strip s) = filter P s"
proof -
  have "filter P (strip s) = rev (filter P (dropWhile is_space (rev (dropWhile is_space s))))"
    by (simp add: strip_def rev_filter)
  also have "\<dots> = rev (filter P (rev (dropWhile is_space s)))"
    using assms by (simp add: filter_dropWhile_disjoint)
  also have "\<dots> = filter P (dropWhile is_space s)"
    by (simp add: rev_filter)
  also have "\<dots> = filter P s"
    using assms by (simp add: filter_dropWhile_disjoint)
  finally show ?thesis .
qed

subsection \<open>\<open>int\<close> on short digit strings\<close>



lemma py_int_error: "py_int s = Inl e \<Longrightarrow> e = ValueError"
  by (auto simp: py_int_def Let_def split: if_splits)

subsection \<open>\<open>float\<close> accepts one decimal point at most\<close>

lemma ci_match_no_point:
  "ci_match b l u \<Longrightarrow> CHR ''.'' \<notin> set l \<Longrightarrow> CHR ''.'' \<notin> set u \<Longrightarrow> CHR ''.'' \<notin> set b"
  by (induction b l u rule: ci_match.induct) auto

lemma digits_no_point: "list_all is_digit ds \<Longrightarrow> filter is_point ds = []"
  by (induction ds) (auto simp: is_digit_iff is_point_def)

lemma takeWhile_digit_no_point: "filter is_point (takeWhile is_digit s) = []"
  by (induction s) (auto simp: is_digit_iff is_point_def)

lemma exponent_ok_no_point: "exponent_ok r \<Longrightarrow> filter is_point r = []"
  by (auto simp: exponent_ok_def Let_def is_point_def is_digit_iff split: list.splits if_splits
      dest!: digits_no_point)

lemma decimal_ok_points: "decimal_ok b \<Longrightarrow> length (filter is_point b) \<le> 1"
proof -
  assume ok: "decimal_ok b"
  let ?r = "dropWhile is_digit b"
  have b: "b = takeWhile is_digit b @ ?r" by simp
  have "length (filter is_point ?r) \<le> 1"
  proof (cases ?r)
    case Nil
    show ?thesis by (simp only: Nil) simp
  next
    case (Cons c r')
    show ?thesis
    proof (cases "c = CHR ''.''")
      case True
      with ok Cons have "exponent_ok (dropWhile is_digit r')"
        by (simp add: decimal_ok_def Let_def)
      then have "filter is_point (dropWhile is_digit r') = []"
        by (rule exponent_ok_no_point)
      moreover have "r' = takeWhile is_digit r' @ dropWhile is_digit r'" by simp
      ultimately have "filter is_point r' = []"
        using takeWhile_digit_no_point[of r']
        by (metis append_Nil filter_append)
      with Cons show ?thesis by simp
    next
      case False
      with ok Cons have "exponent_ok ?r"
        by (simp add: decimal_ok_def Let_def)
      then show ?thesis by (simp add: exponent_ok_no_point)
    qed
  qed
  moreover have "filter is_point b = filter is_point ?r"
    using takeWhile_digit_no_point[of b] by (metis append_Nil b filter_append)
  ultimately show ?thesis by simp
qed

lemma filter_point_sign:
  "filter is_point (if u \<noteq> [] \<and> (hd u = CHR ''-'' \<or> hd u = CHR ''+'') then tl u else u)
     = filter is_point u"
  by (cases u) (auto simp: is_point_def)

lemma py_float_points:
  assumes "py_float t = Inr x"
  shows "length (filter is_point t) \<le> 1"
proof -
  define u where "u = filter (\<lambda>c. c \<noteq> CHR ''_'') (strip t)"
  define b where "b = (if u \<noteq> [] \<and> (hd u = CHR ''-'' \<or> hd u = CHR ''+'') then tl u else u)"
  have "py_float t = (if underscores_ok (strip t) then
           if ci_match b ''inf'' ''INF'' \<or> ci_match b ''infinity'' ''INFINITY''
           then Inr (Infinity (u \<noteq> [] \<and> hd u = CHR ''-''))
           else if ci_match b ''nan'' ''NAN'' then Inr NaN
           else if decimal_ok b
           then Inr (Finite (if u \<noteq> [] \<and> hd u = CHR ''-'' then - decimal_value b else decimal_value b))
           else Inl ValueError
         else Inl ValueError)"
    unfolding py_float_def Let_def u_def b_def by (rule refl)
  with assms have cases: "ci_match b ''inf'' ''INF'' \<or> ci_match b ''infinity'' ''INFINITY''
      \<or> ci_match b ''nan'' ''NAN'' \<or> decimal_ok b"
    by (auto split: if_splits)
  have "length (filter is_point b) \<le> 1"
  proof -
    { fix l u assume "ci_match b l u" "CHR ''.'' \<notin> set l" "CHR ''.'' \<notin> set u"
      then have "CHR ''.'' \<notin> set b" by (rule ci_match_no_point)
      then have "filter is_point b = []"
        by (auto simp: filter_empty_conv is_point_def) }
    note ci = this
    from cases show ?thesis
      using ci[of "''inf''" "''INF''"] ci[of "''infinity''" "''INFINITY''"] ci[of "''nan''" "''NAN''"]
        decimal_ok_points[of b]
      by fastforce
  qed
  moreover have "filter is_point b = filter is_point u"
    unfolding b_def by (rule filter_point_sign)
  moreover have "filter is_point u = filter is_point (strip t)"
    unfolding u_def by (auto simp: is_point_def intro: filter_cong)
  moreover have "filter is_point (strip t) = filter is_point t"
    by (rule filter_strip) (simp add: is_point_def is_space_def)
  ultimately show ?thesis by simp
qed

lemma py_float_error: "py_float t = Inl e \<Longrightarrow> e = ValueError"
  by (auto simp: py_float_def Let_def split: if_splits)

section \<open>The date normaliser\<close>






lemma datetime_date_error: "datetime_date y m d = Inl e \<Longrightarrow> e = ValueError \<or> e = OverflowError"
  by (auto simp: datetime_date_def split: if_splits)

lemma strptime_Ymd_error: "strptime_Ymd s = Inl e \<Longrightarrow> e = ValueError \<or> e = OverflowError"
  by (auto simp: strptime_Ymd_def split: list.splits if_splits dest: datetime_date_error)

lemma parse_date_error: "parse_date v = Inl e \<Longrightarrow> e = ValueError \<or> e = OverflowError"
  by (auto simp: parse_date_def Let_def split: if_splits list.splits sum.splits
      dest: py_int_error datetime_date_error strptime_Ymd_error)

lemma set_strip_subset: "set (strip s) \<subseteq> set s"
  by (auto simp: strip_def dest!: set_dropWhileD)

text \<open>
  Claim C6, as amended.  The date normalisation is not total and has no default: on a
  missing, empty or white-space value, and on any value with neither \<open>/\<close> nor \<open>-\<close>,
  it raises \<open>ValueError\<close>; whenever it does not return a date of the calendar it
  raises \<open>ValueError\<close> or \<open>OverflowError\<close>.
\<close>
theorem parse_date_raises:
  "(pd_isna v \<or> strip (py_str v) = [] \<longrightarrow> parse_date v = Inl ValueError)
   \<and> (CHR ''/'' \<notin> set (py_str v) \<and> CHR ''-'' \<notin> set (py_str v) \<longrightarrow> parse_date v = Inl ValueError)
   \<and> (\<forall>e. parse_date v = Inl e \<longrightarrow> e = ValueError \<or> e = OverflowError)"
proof (intro conjI impI allI)
  assume "pd_isna v \<or> strip (py_str v) = []"
  then show "parse_date v = Inl ValueError" by (auto simp: parse_date_def)
next
  assume "CHR ''/'' \<notin> set (py_str v) \<and> CHR ''-'' \<notin> set (py_str v)"
  then have "CHR ''/'' \<notin> set (strip (py_str v))" "CHR ''-'' \<notin> set (strip (py_str v))"
    using set_strip_subset[of "py_str v"] by auto
  then show "parse_date v = Inl ValueError" by (simp add: parse_date_def Let_def)
next
  fix e assume "parse_date v = Inl e"
  then show "e = ValueError \<or> e = OverflowError" by (rule parse_date_error)
qed

theorem parse_date_raises_witness:
  "parse_date None = Inl ValueError \<and> parse_date (Some ''20230115'') = Inl ValueError"
proof -
  have a: "parse_date None = Inl ValueError"
    using parse_date_raises[of None] by (simp add: pd_isna_def)
  have b: "parse_date (Some ''20230115'') = Inl ValueError"
    using parse_date_raises[of "Some ''20230115''"] by (simp add: py_str_def)
  from a b show ?thesis by simp
qed

text \<open>
  Claim C6 as stated fails: the empty string, a blank string and a word do not degrade
  to a default date, they raise.
\<close>
theorem parse_date_blank_counterexample:
  "parse_date (Some '''') = Inl ValueError \<and> parse_date (Some ''   '') = Inl ValueError
   \<and> parse_date (Some ''hoy'') = Inl ValueError"
  by (simp add: parse_date_def pd_isna_def py_str_def strip_def is_space_def)

section \<open>The decimal normaliser\<close>

lemma replace_comma_idem:
  "replace_char CHR '','' CHR ''.'' (replace_char CHR '','' CHR ''.'' s) = replace_char CHR '','' CHR ''.'' s"
  by (simp add: replace_char_def)

lemma is_space_replace_comma:
  "is_space (if c = CHR '','' then CHR ''.'' else c) = is_space c"
  by (simp add: is_space_def)

lemma strip_replace_comma_Nil:
  "strip (replace_char CHR '','' CHR ''.'' s) = [] \<longleftrightarrow> strip s = []"
proof -
  have "list_all is_space (replace_char CHR '','' CHR ''.'' s) = list_all is_space s"
    by (induction s) (simp_all add: replace_char_def is_space_replace_comma)
  then show ?thesis by (simp only: strip_Nil_iff)
qed

lemma filter_point_replace_comma:
  "length (filter is_point (replace_char CHR '','' CHR ''.'' s))
     = length (filter (\<lambda>c. c = CHR '','' \<or> c = CHR ''.'') s)"
  by (induction s) (simp_all add: replace_char_def is_point_def)

lemma safe_float_conversion_Some:
  "safe_float_conversion (Some s) =
     (if strip s = [] then Inr (Finite 0)
      else case py_float (replace_char CHR '','' CHR ''.'' s) of
             Inr x \<Rightarrow> Inr x
           | Inl e \<Rightarrow> Inr (Finite 0))"
proof (cases "py_float (replace_char CHR '','' CHR ''.'' s)")
  case (Inl e)
  then have "e = ValueError" by (rule py_float_error)
  with Inl show ?thesis
    by (simp add: safe_float_conversion_def pd_isna_def py_str_def)
next
  case (Inr x)
  then show ?thesis
    by (simp add: safe_float_conversion_def pd_isna_def py_str_def)
qed

lemma safe_float_conversion_None: "safe_float_conversion None = Inr (Finite 0)"
  by (simp add: safe_float_conversion_def pd_isna_def)

lemma py_float_two_points:
  "2 \<le> length (filter is_point t) \<Longrightarrow> py_float t = Inl ValueError"
proof -
  assume two: "2 \<le> length (filter is_point t)"
  show ?thesis
  proof (cases "py_float t")
    case (Inl e)
    then show ?thesis using py_float_error by blast
  next
    case (Inr x)
    then have "length (filter is_point t) \<le> 1" by (rule py_float_points)
    with two show ?thesis by simp
  qed
qed

text \<open>
  Claim C9, as amended.  \<open>_safe_float_conversion\<close> returns the float \<open>0.0\<close> for a
  missing or blank value and for a value \<open>float\<close> rejects, with no validity flag
  beside it; a comma is read as the decimal point, so a value written with commas
  converts to the same float as the value written with points in their place.
\<close>
theorem safe_float_conversion_comma:
  "safe_float_conversion None = Inr (Finite 0)
   \<and> (strip s = [] \<longrightarrow> safe_float_conversion (Some s) = Inr (Finite 0))
   \<and> (py_float (replace_char CHR '','' CHR ''.'' s) = Inl ValueError
        \<longrightarrow> safe_float_conversion (Some s) = Inr (Finite 0))
   \<and> safe_float_conversion (Some (replace_char CHR '','' CHR ''.'' s)) = safe_float_conversion (Some s)"
  by (simp add: safe_float_conversion_Some safe_float_conversion_None replace_comma_idem
      strip_replace_comma_Nil)

lemma strip_blank2: "strip ''  '' = []"
  by (simp add: strip_def is_space_def)

lemma py_float_abc: "py_float ''abc'' = Inl ValueError"
  by (simp add: py_float_def strip_def is_space_def underscores_ok_def decimal_ok_def is_digit_iff)

lemma replace_comma_example:
  "replace_char CHR '','' CHR ''.'' ''1234,56'' = ''1234.56''"
  by (simp add: replace_char_def)

theorem safe_float_conversion_comma_witness:
  "safe_float_conversion (Some ''1234,56'') = safe_float_conversion (Some ''1234.56'')
   \<and> safe_float_conversion (Some ''  '') = Inr (Finite 0)
   \<and> safe_float_conversion (Some ''abc'') = Inr (Finite 0)"
proof -
  have "safe_float_conversion (Some (replace_char CHR '','' CHR ''.'' ''1234,56''))
          = safe_float_conversion (Some ''1234,56'')"
    using safe_float_conversion_comma[of "''1234,56''"] by blast
  then have a: "safe_float_conversion (Some ''1234,56'') = safe_float_conversion (Some ''1234.56'')"
    by (simp only: replace_comma_example)
  have b: "safe_float_conversion (Some ''  '') = Inr (Finite 0)"
    using safe_float_conversion_comma[of "''  ''"] strip_blank2 by blast
  have "py_float (replace_char CHR '','' CHR ''.'' ''abc'') = Inl ValueError"
    by (simp add: replace_char_def py_float_abc)
  then have c: "safe_float_conversion (Some ''abc'') = Inr (Finite 0)"
    using safe_float_conversion_comma[of "''abc''"] by blast
  from a b c show ?thesis by blast
qed

lemma py_float_0: "py_float ''0'' = Inr (Finite 0)"
  by (simp add: py_float_def strip_def is_space_def underscores_ok_def decimal_ok_def exponent_ok_def
      decimal_value_def exponent_value_def digits_value_def digit_val_def is_digit_iff)

text \<open>
  Claim C9 as stated fails on the validity flag: the result is a bare float, and the
  blank value gives the very result of the valid value \<open>0\<close>.
\<close>
theorem safe_float_conversion_flag_counterexample:
  "safe_float_conversion (Some '''') = Inr (Finite 0) \<and> safe_float_conversion (Some ''0'') = Inr (Finite 0)"
  by (simp add: safe_float_conversion_Some strip_def is_space_def replace_char_def py_float_0)

text \<open>
  Claim C10.  \<open>_safe_float_conversion\<close> never raises; on a string it converts the
  string with every comma replaced by a point, and a failure of the conversion gives
  \<open>0.0\<close>; a string with two or more separators (commas or points), such as
  \<open>1,234.56\<close> or \<open>1.234,56\<close>, gives \<open>0.0\<close>.
\<close>
theorem safe_float_conversion_total:
  "(\<exists>x. safe_float_conversion v = Inr x)
   \<and> safe_float_conversion (Some s) =
       (if strip s = [] then Inr (Finite 0)
        else case py_float (replace_char CHR '','' CHR ''.'' s) of
               Inr x \<Rightarrow> Inr x
             | Inl e \<Rightarrow> Inr (Finite 0))
   \<and> CHR '','' \<notin> set (replace_char CHR '','' CHR ''.'' s)
   \<and> (2 \<le> length (filter (\<lambda>c. c = CHR '','' \<or> c = CHR ''.'') s)
        \<longrightarrow> safe_float_conversion (Some s) = Inr (Finite 0))"
proof (intro conjI impI)
  show "\<exists>x. safe_float_conversion v = Inr x"
    by (cases v) (auto simp: safe_float_conversion_None safe_float_conversion_Some split: sum.splits)
  show "safe_float_conversion (Some s) =
       (if strip s = [] then Inr (Finite 0)
        else case py_float (replace_char CHR '','' CHR ''.'' s) of
               Inr x \<Rightarrow> Inr x
             | Inl e \<Rightarrow> Inr (Finite 0))"
    by (rule safe_float_conversion_Some)
  show "CHR '','' \<notin> set (replace_char CHR '','' CHR ''.'' s)"
    by (auto simp: replace_char_def)
  assume "2 \<le> length (filter (\<lambda>c. c = CHR '','' \<or> c = CHR ''.'') s)"
  then have "py_float (replace_char CHR '','' CHR ''.'' s) = Inl ValueError"
    by (simp add: py_float_two_points filter_point_replace_comma)
  then show "safe_float_conversion (Some s) = Inr (Finite 0)"
    by (simp add: safe_float_conversion_Some)
qed

theorem safe_float_conversion_total_witness:
  "safe_float_conversion (Some ''1,234.56'') = Inr (Finite 0)
   \<and> safe_float_conversion (Some ''1.234,56'') = Inr (Finite 0)"
proof -
  have "2 \<le> length (filter (\<lambda>c. c = CHR '','' \<or> c = CHR ''.'') ''1,234.56'')"
    by simp
  then have a: "safe_float_conversion (Some ''1,234.56'') = Inr (Finite 0)"
    using safe_float_conversion_total[of None "''1,234.56''"] by blast
  have "2 \<le> length (filter (\<lambda>c. c = CHR '','' \<or> c = CHR ''.'') ''1.234,56'')"
    by simp
  then have b: "safe_float_conversion (Some ''1.234,56'') = Inr (Finite 0)"
    using safe_float_conversion_total[of None "''1.234,56''"] by blast
  from a b show ?thesis by blast
qed

section \<open>The line-by-line reader and the decoder\<close>

lemma length_repair_spec: "0 < k \<Longrightarrow> length (repair_spec k r) = k"
  by (auto simp: repair_spec_def)

lemma process_line_header:
  "process_line (Suc 0, h) st = st\<lparr>headers := Some h\<rparr>"
  by (simp add: process_line_def)

lemma process_line_repair:
  assumes "headers st = Some h" and "h \<noteq> []" and "n \<noteq> 1"
  shows "process_line (n, r) st =
           st\<lparr>valid_rows := valid_rows st @ [repair_spec (length h) r],
              problematic_lines := problematic_lines st @ (if length r \<noteq> length h then [n] else [])\<rparr>"
proof -
  from assms(2) have k: "0 < length h" by simp
  then have idx: "\<not> int (length h) - 1 < 0" "nat (int (length h) - 1) = length h - 1"
    by simp_all
  show ?thesis
    using assms(1,3) idx
    by (auto simp: process_line_def Let_def repair_spec_def py_slice_to_def py_slice_from_def)
qed

lemma fold_process_line:
  assumes "headers st = Some h" and "h \<noteq> []" and "2 \<le> n"
  shows "fold process_line (enumerate n data) st =
           st\<lparr>valid_rows := valid_rows st @ map (repair_spec (length h)) data,
              problematic_lines := problematic_lines st @
                map fst (filter (\<lambda>p. length (snd p) \<noteq> length h) (enumerate n data))\<rparr>"
  using assms
proof (induction data arbitrary: st n)
  case Nil
  then show ?case by simp
next
  case (Cons r rs)
  let ?st = "process_line (n, r) st"
  have n1: "n \<noteq> 1" using Cons.prems(3) by simp
  have step: "?st = st\<lparr>valid_rows := valid_rows st @ [repair_spec (length h) r],
              problematic_lines := problematic_lines st @ (if length r \<noteq> length h then [n] else [])\<rparr>"
    by (rule process_line_repair[OF Cons.prems(1,2) n1])
  have hd: "headers ?st = Some h" using Cons.prems(1) by (simp add: step)
  have "fold process_line (enumerate n (r # rs)) st
          = fold process_line (enumerate (Suc n) rs) ?st"
    by simp
  also have "\<dots> = ?st\<lparr>valid_rows := valid_rows ?st @ map (repair_spec (length h)) rs,
              problematic_lines := problematic_lines ?st @
                map fst (filter (\<lambda>p. length (snd p) \<noteq> length h) (enumerate (Suc n) rs))\<rparr>"
    using Cons.IH[OF hd Cons.prems(2), of "Suc n"] Cons.prems(3) by simp
  finally show ?case
    by (simp add: step)
qed

lemma line_by_line_loop_Cons:
  assumes "h \<noteq> []"
  shows "line_by_line_loop (h # data) =
           \<lparr>headers = Some h, valid_rows = map (repair_spec (length h)) data,
            problematic_lines =
              map fst (filter (\<lambda>p. length (snd p) \<noteq> length h) (enumerate 2 data))\<rparr>"
proof -
  have en: "enumerate1 (h # data) = (1, h) # enumerate 2 data"
    by (simp add: enumerate1_def numeral_2_eq_2)
  let ?st = "\<lparr>headers = Some h, valid_rows = [], problematic_lines = []\<rparr>"
  have "line_by_line_loop (h # data) = fold process_line (enumerate 2 data) ?st"
    by (simp add: line_by_line_loop_def en process_line_header)
  also have "\<dots> = ?st\<lparr>valid_rows := valid_rows ?st @ map (repair_spec (length h)) data,
              problematic_lines := problematic_lines ?st @
                map fst (filter (\<lambda>p. length (snd p) \<noteq> length h) (enumerate 2 data))\<rparr>"
    by (rule fold_process_line) (use assms in simp_all)
  finally show ?thesis by simp
qed

lemma fold_max_const:
  "\<forall>x \<in> set xs. x = k \<Longrightarrow> xs \<noteq> [] \<Longrightarrow> fold max xs (m::nat) = max m k"
proof (induction xs arbitrary: m)
  case Nil
  then show ?case by simp
next
  case (Cons x xs)
  show ?case
  proof (cases "xs = []")
    case True
    with Cons.prems show ?thesis by simp
  next
    case False
    with Cons show ?thesis by (simp add: max.assoc)
  qed
qed

lemma DataFrame_exact_width:
  assumes "\<forall>r \<in> set data. length r = length hs"
  shows "DataFrame data hs = Inr \<lparr>columns = hs, rows = map (map Some) data\<rparr>"
proof (cases "data = []")
  case True
  then show ?thesis by (simp add: DataFrame_def)
next
  case False
  have "fold max (map length data) 0 = max 0 (length hs)"
    by (rule fold_max_const) (use assms False in auto)
  moreover have "map (pad_row (length hs)) data = map (map Some) data"
    using assms by (simp add: pad_row_def)
  ultimately show ?thesis using False by (simp add: DataFrame_def)
qed

text \<open>
  Claim C8, as amended.  With a header of \<open>k \<ge> 1\<close> fields, the line-by-line reader
  keeps every data line: a line with \<open>k\<close> fields as it is, a line with more fields
  with its first \<open>k - 1\<close> fields unchanged and the remaining fields re-joined with
  \<open>;\<close> as its \<open>k\<close>-th field, a line with fewer fields padded with empty fields up to
  \<open>k\<close>; the numbers of exactly the lines whose field count is not \<open>k\<close> are recorded,
  and the dataframe holds one row per data line.
\<close>
theorem line_repair:
  assumes "h \<noteq> []"
  shows "valid_rows (line_by_line_loop (h # data)) = map (repair_spec (length h)) data
    \<and> problematic_lines (line_by_line_loop (h # data)) =
        map fst (filter (\<lambda>p. length (snd p) \<noteq> length h) (enumerate 2 data))
    \<and> read_csv_line_by_line (Inr (h # data)) =
        Inr \<lparr>columns = h, rows = map (\<lambda>r. map Some (repair_spec (length h) r)) data\<rparr>"
proof -
  have loop: "line_by_line_loop (h # data) =
           \<lparr>headers = Some h, valid_rows = map (repair_spec (length h)) data,
            problematic_lines =
              map fst (filter (\<lambda>p. length (snd p) \<noteq> length h) (enumerate 2 data))\<rparr>"
    by (rule line_by_line_loop_Cons[OF assms])
  have "\<forall>r \<in> set (map (repair_spec (length h)) data). length r = length h"
    using assms by (simp add: length_repair_spec)
  then have "DataFrame (map (repair_spec (length h)) data) h =
      Inr \<lparr>columns = h, rows = map (map Some) (map (repair_spec (length h)) data)\<rparr>"
    by (rule DataFrame_exact_width)
  then show ?thesis
    by (simp add: loop read_csv_line_by_line_def comp_def)
qed

theorem line_repair_witness:
  "read_csv_line_by_line (Inr [[''a'', ''b''], [''1'', ''2'', ''3''], [''4''], [''5'', ''6'']]) =
     Inr \<lparr>columns = [''a'', ''b''],
          rows = [[Some ''1'', Some ''2;3''], [Some ''4'', Some ''''], [Some ''5'', Some ''6'']]\<rparr>
   \<and> problematic_lines (line_by_line_loop [[''a'', ''b''], [''1'', ''2'', ''3''], [''4''], [''5'', ''6'']])
       = [2, 3]"
  using line_repair[of "[''a'', ''b'']" "[[''1'', ''2'', ''3''], [''4''], [''5'', ''6'']]"]
  by (simp add: repair_spec_def numeral_2_eq_2)

text \<open>
  Claim C8 as stated, for every header, fails for a header line without fields (a blank
  first line): \<open>row[:-1]\<close> is all but the last field, so the line is kept as it is,
  nothing is re-joined, and \<open>pd.DataFrame\<close> then refuses the rows, so that no line
  is read at all.
\<close>
theorem line_repair_empty_header_counterexample:
  "valid_rows (line_by_line_loop [[], [''a'', ''b'']]) = [[''a'', ''b'']]
   \<and> repair_spec 0 [''a'', ''b''] = [''a;b'']
   \<and> read_csv_line_by_line (Inr [[], [''a'', ''b'']]) = Inl ValueError"
  by (simp add: line_by_line_loop_def enumerate1_def process_line_def
      py_slice_to_def py_slice_from_def repair_spec_def read_csv_line_by_line_def DataFrame_def)

text \<open>
  Claim C5, as amended.  The decoder tries, in this order, the basic read, the read with
  quoting parameters, the line-by-line repair and the reads with the encodings utf-8,
  latin-1, cp1252 and iso-8859-1, and returns the dataframe of the first attempt that
  does not raise, whatever its number of rows; a later strategy runs only when every
  earlier one raised, and no results are merged.
\<close>
theorem read_csv_robust_first_success:
  "read_csv_robust env =
     first_success
       [read_csv_basic env, read_csv_quoting env, read_csv_line_by_line (csv_reader env),
        read_csv_encoding env ''utf-8'', read_csv_encoding env ''latin-1'',
        read_csv_encoding env ''cp1252'', read_csv_encoding env ''iso-8859-1'']"
  by (simp add: read_csv_robust_def encodings_def split: sum.splits)

text \<open>
  Claim C5 as stated fails where an earlier strategy succeeds with no row: on a header
  followed by a blank line the basic read returns an empty dataframe, which is the
  result, although the line-by-line repair would read one (padded) row.
\<close>
theorem read_csv_robust_zero_rows_counterexample:
  "read_csv_robust blank_line_env = Some \<lparr>columns = [''a'', ''b''], rows = []\<rparr>
   \<and> read_csv_line_by_line (csv_reader blank_line_env) =
       Inr \<lparr>columns = [''a'', ''b''], rows = [[Some '''', Some '''']]\<rparr>"
  by (simp add: read_csv_robust_def blank_line_env_def read_csv_line_by_line_def
      line_by_line_loop_def enumerate1_def process_line_def DataFrame_def pad_row_def)

section \<open>The entry point\<close>

lemma clean_existing_data_missing: "getattr_self ''_clean_existing_data'' = Inl AttributeError"
  by (simp add: getattr_self_def CSVLoader_attributes_def)

lemma load_csv_data_error:
  assumes "path_exists env" and "read_csv_robust env = Some df"
  shows "fst (load_csv_data env db) =
           StatusError (StrOf (case create_all env of None \<Rightarrow> AttributeError | Some e \<Rightarrow> e))
         \<and> snd (load_csv_data env db) = db"
  using assms
  by (simp add: load_csv_data_def try_block_def clean_existing_data_missing rollback_def close_def
      split: option.splits)

text \<open>
  Claim C1.  When the file exists and the decoder returns a dataframe, \<open>load_csv_data\<close>
  returns an error result and leaves the database as it was: the call of
  \<open>self._clean_existing_data\<close>, which the class does not define, raises
  \<open>AttributeError\<close> before either loading pass runs (unless the creation of the
  tables has raised already), and the handler turns the exception into the result.
\<close>
theorem load_csv_data_existing_file_error:
  assumes "path_exists env" and "read_csv_robust env = Some df"
  shows "fst (load_csv_data env db) =
           StatusError (StrOf (case create_all env of None \<Rightarrow> AttributeError | Some e \<Rightarrow> e))
         \<and> snd (load_csv_data env db) = db"
  using assms by (rule load_csv_data_error)

lemma read_csv_robust_blank_line_env:
  "read_csv_robust blank_line_env = Some \<lparr>columns = [''a'', ''b''], rows = []\<rparr>"
  by (simp add: read_csv_robust_def blank_line_env_def)

theorem load_csv_data_existing_file_error_witness:
  "load_csv_data blank_line_env empty_db = (StatusError (StrOf AttributeError), empty_db)"
proof -
  have p: "path_exists blank_line_env" by (simp add: blank_line_env_def)
  have c: "create_all blank_line_env = None" by (simp add: blank_line_env_def)
  show ?thesis
    using load_csv_data_existing_file_error[OF p read_csv_robust_blank_line_env, of empty_db]
    by (simp add: c prod_eq_iff)
qed

text \<open>
  Claim C4 at a path where no file exists: \<open>load_csv_data\<close> returns what
  \<open>_load_sample_data\<close> returns, which is \<open>None\<close>, not a result with a status.
\<close>
theorem load_csv_data_missing_file:
  "load_csv_data missing_file_env empty_db = (PyNone, empty_db)"
  by (simp add: load_csv_data_def try_block_def missing_file_env_def load_sample_data_def close_def)

section \<open>The loading passes\<close>

subsection \<open>Queries\<close>

lemma query_first_None_iff: "query_first tbl (Some n) = None \<longleftrightarrow> n \<notin> snd ` set tbl"
  by (force simp: query_first_def find_None_iff)

lemma query_first_SomeD:
  "query_first tbl v = Some row \<Longrightarrow> row \<in> set tbl \<and> v = Some (snd row)"
  by (auto simp: query_first_def find_Some_iff split: option.splits)

lemma sql_eq_Some: "sql_eq (Some a) (Some b) = (a = b)"
  by (simp add: sql_eq_def)

lemma sql_eq_SomeD: "sql_eq a b \<Longrightarrow> a = b \<and> a \<noteq> None"
  by (auto simp: sql_eq_def split: option.splits)

subsection \<open>Sessions\<close>

lemma store_add: "store (add obj s) = store s"
  by (simp add: add_def)

lemma new_add: "new (add obj s) = new s @ [obj]"
  by (simp add: add_def)

lemma add_if_absent_eq:
  "add_if_absent tbl mk n s =
     s\<lparr>new := new s @ (if n \<notin> snd ` set (tbl (store s)) then [mk n] else [])\<rparr>"
  by (simp add: add_if_absent_def query_first_None_iff add_def)

lemma fold_add_if_absent:
  "fold (add_if_absent tbl mk) names s =
     s\<lparr>new := new s @ map mk (filter (\<lambda>n. n \<notin> snd ` set (tbl (store s))) names)\<rparr>"
proof (induction names arbitrary: s)
  case Nil
  show ?case by simp
next
  case (Cons n names)
  have "fold (add_if_absent tbl mk) (n # names) s
          = fold (add_if_absent tbl mk) names (add_if_absent tbl mk n s)"
    by simp
  also have "\<dots> = (add_if_absent tbl mk n s)\<lparr>new := new (add_if_absent tbl mk n s) @
      map mk (filter (\<lambda>m. m \<notin> snd ` set (tbl (store (add_if_absent tbl mk n s)))) names)\<rparr>"
    by (rule Cons.IH)
  also have "\<dots> = s\<lparr>new := new s @
      map mk (filter (\<lambda>m. m \<notin> snd ` set (tbl (store s))) (n # names))\<rparr>"
    by (simp add: add_if_absent_eq)
  finally show ?case .
qed

lemma load_category_eq:
  "load_category tbl mk df col s =
     s\<lparr>new := new s @ map mk (filter (\<lambda>n. n \<notin> snd ` set (tbl (store s)))
                                 (unique (dropna (column_values df col))))\<rparr>"
  by (simp add: load_category_def fold_add_if_absent)

subsection \<open>Flushing\<close>

lemma flush_one_names:
  assumes "flush_one obj db = Inr db'"
  shows "snd ` set (aduanas db') = snd ` set (aduanas db) \<union> {n. NewAduana n = obj}"
    and "snd ` set (paises db') = snd ` set (paises db) \<union> {n. NewPais n = obj}"
    and "snd ` set (tipos_regimen db') = snd ` set (tipos_regimen db) \<union> {n. NewTipoRegimen n = obj}"
    and "snd ` set (unidades_medida db') = snd ` set (unidades_medida db) \<union> {n. NewUnidadMedida n = obj}"
    and "snd ` set (codigos_sac db') = snd ` set (codigos_sac db) \<union> {n. NewCodigoSAC n = obj}"
    and "\<not> is_declaracion obj \<Longrightarrow> declaraciones_importacion db' = declaraciones_importacion db"
  using assms
  by (cases obj; auto simp: map_sum_def insert_ref_def insert_declaracion_def
      split: if_splits sum.splits)+

lemma flush_names:
  assumes "flush objs db = Inr db'"
  shows "snd ` set (aduanas db') = snd ` set (aduanas db) \<union> {n. NewAduana n \<in> set objs}
    \<and> snd ` set (paises db') = snd ` set (paises db) \<union> {n. NewPais n \<in> set objs}
    \<and> snd ` set (tipos_regimen db') = snd ` set (tipos_regimen db) \<union> {n. NewTipoRegimen n \<in> set objs}
    \<and> snd ` set (unidades_medida db') = snd ` set (unidades_medida db) \<union> {n. NewUnidadMedida n \<in> set objs}
    \<and> snd ` set (codigos_sac db') = snd ` set (codigos_sac db) \<union> {n. NewCodigoSAC n \<in> set objs}
    \<and> (list_all (\<lambda>obj. \<not> is_declaracion obj) objs
         \<longrightarrow> declaraciones_importacion db' = declaraciones_importacion db)"
  using assms
proof (induction objs arbitrary: db)
  case Nil
  then show ?case by simp
next
  case (Cons obj objs)
  from Cons.prems obtain db1 where one: "flush_one obj db = Inr db1" and rest: "flush objs db1 = Inr db'"
    by (auto split: sum.splits)
  note n1 = flush_one_names[OF one]
  note ih = Cons.IH[OF rest]
  show ?case
    using ih n1 by (auto simp del: flush_one.simps)
qed

lemma flush_declaraciones:
  assumes "flush (map NewDeclaracion ds) db = Inr db'"
  shows "\<exists>new_rows. db' = db\<lparr>declaraciones_importacion := declaraciones_importacion db @ new_rows\<rparr>
           \<and> map snd new_rows = ds
           \<and> (\<forall>d \<in> set ds. correlativo d \<noteq> None \<and> descripcion d \<noteq> None)"
  using assms
proof (induction ds arbitrary: db)
  case Nil
  then show ?case by simp
next
  case (Cons d ds)
  let ?db1 = "db\<lparr>declaraciones_importacion :=
                 declaraciones_importacion db @ [(next_id (declaraciones_importacion db), d)]\<rparr>"
  from Cons.prems have ok: "correlativo d \<noteq> None \<and> descripcion d \<noteq> None"
    and rest: "flush (map NewDeclaracion ds) ?db1 = Inr db'"
    by (auto simp: map_sum_def insert_declaracion_def split: if_splits sum.splits)
  from Cons.IH[OF rest] obtain new_rows where
    eq: "db' = ?db1\<lparr>declaraciones_importacion := declaraciones_importacion ?db1 @ new_rows\<rparr>"
    and sn: "map snd new_rows = ds"
    and nn: "\<forall>d \<in> set ds. correlativo d \<noteq> None \<and> descripcion d \<noteq> None"
    by blast
  let ?rows = "(next_id (declaraciones_importacion db), d) # new_rows"
  have "db' = db\<lparr>declaraciones_importacion := declaraciones_importacion db @ ?rows\<rparr>"
    using eq by simp
  moreover have "map snd ?rows = d # ds" using sn by simp
  ultimately show ?case using ok nn by (intro exI[of _ ?rows]) simp
qed


subsection \<open>One row of the declaration pass\<close>

lemma process_row_Staged_iff:
  "process_row db df r = Staged d \<longleftrightarrow>
     list_all (\<lambda>c. c \<in> set (columns df)) required_columns \<and>
     (\<exists>ids fecha key.
        resolve_references db df r = Some ids
        \<and> bind (row_get df r ''fecha_declaracion'') parse_date = Inr fecha
        \<and> key_fields df r = Inr key
        \<and> query_existing (declaraciones_importacion db) (fst key)
             (snd (snd (snd (snd ids)))) (snd key) = None
        \<and> make_declaracion df r fecha (fst ids) (fst (snd ids)) (fst (snd (snd ids)))
             (fst (snd (snd (snd ids)))) (snd (snd (snd (snd ids)))) = Inr d)"
  by (auto simp: process_row_def split: option.splits sum.splits)

lemma resolve_references_declaraciones:
  "resolve_references (db\<lparr>declaraciones_importacion := x\<rparr>) df r = resolve_references db df r"
  by (simp add: resolve_references_def)

lemma make_declaracion_key:
  "make_declaracion df r fecha a p g u c = Inr d \<Longrightarrow>
     key_fields df r = Inr (correlativo d, descripcion d) \<and> codigo_sac_id d = c"
  by (auto simp: make_declaracion_def key_fields_def bind_def split: sum.splits)

lemma key_fields_row_get:
  "key_fields df r = Inr key \<Longrightarrow>
     row_get df r ''correlativo'' = Inr (fst key) \<and> row_get df r ''descripcion'' = Inr (snd key)"
  by (auto simp: key_fields_def bind_def split: sum.splits)

lemma resolve_references_sac:
  "resolve_references db df r = Some ids \<Longrightarrow>
     (snd (snd (snd (snd ids))), py_str (cell_at r (index_of ''sac'' (columns df))))
       \<in> set (codigos_sac db)"
  by (auto simp: resolve_references_def split: option.splits dest!: query_first_SomeD)

lemma required_sac: "list_all (\<lambda>c. c \<in> set cs) required_columns \<Longrightarrow> ''sac'' \<in> set cs"
  by (simp add: required_columns_def)

lemma staged_Cons:
  "staged db df (r # rs) =
     (case process_row db df r of Staged d \<Rightarrow> d # staged db df rs | _ \<Rightarrow> staged db df rs)"
  by (simp add: staged_def staged_row_def split: row_outcome.splits)

lemma staged_Nil: "staged db df [] = []"
  by (simp add: staged_def)

lemma staged_mem:
  "d \<in> set (staged db df rs) \<longleftrightarrow> (\<exists>r \<in> set rs. process_row db df r = Staged d)"
  by (induction rs) (auto simp: staged_Cons staged_Nil split: row_outcome.splits)

lemma staged_key:
  assumes "process_row db df r = Staged d"
  shows "row_key df r = (Inr (correlativo d), Inr (py_str (cell_at r (index_of ''sac'' (columns df)))),
                         Inr (descripcion d))"
    and "(codigo_sac_id d, py_str (cell_at r (index_of ''sac'' (columns df)))) \<in> set (codigos_sac db)"
    and "query_existing (declaraciones_importacion db) (correlativo d) (codigo_sac_id d)
           (descripcion d) = None"
proof -
  from assms obtain ids fecha key where
    cols: "list_all (\<lambda>c. c \<in> set (columns df)) required_columns"
    and ids: "resolve_references db df r = Some ids"
    and key: "key_fields df r = Inr key"
    and ex: "query_existing (declaraciones_importacion db) (fst key)
             (snd (snd (snd (snd ids)))) (snd key) = None"
    and mk: "make_declaracion df r fecha (fst ids) (fst (snd ids)) (fst (snd (snd ids)))
             (fst (snd (snd (snd ids)))) (snd (snd (snd (snd ids)))) = Inr d"
    unfolding process_row_Staged_iff by blast
  from make_declaracion_key[OF mk] key
  have k: "key = (correlativo d, descripcion d)" and c: "codigo_sac_id d = snd (snd (snd (snd ids)))"
    by simp_all
  from key_fields_row_get[OF key] k
  have rg: "row_get df r ''correlativo'' = Inr (correlativo d)"
    "row_get df r ''descripcion'' = Inr (descripcion d)"
    by simp_all
  have sac: "row_get df r ''sac'' = Inr (cell_at r (index_of ''sac'' (columns df)))"
    using required_sac[OF cols] by (simp add: row_get_def)
  show "row_key df r = (Inr (correlativo d), Inr (py_str (cell_at r (index_of ''sac'' (columns df)))),
                         Inr (descripcion d))"
    by (simp add: row_key_def rg sac map_sum_def)
  show "(codigo_sac_id d, py_str (cell_at r (index_of ''sac'' (columns df)))) \<in> set (codigos_sac db)"
    using resolve_references_sac[OF ids] c by simp
  show "query_existing (declaraciones_importacion db) (correlativo d) (codigo_sac_id d)
           (descripcion d) = None"
    using ex k c by simp
qed

lemma query_existing_None_iff:
  "query_existing tbl corr sac_id descr = None \<longleftrightarrow>
     (\<forall>p \<in> set tbl. \<not> (sql_eq (correlativo (snd p)) corr \<and> codigo_sac_id (snd p) = sac_id
                         \<and> sql_eq (descripcion (snd p)) descr))"
  by (auto simp: query_existing_def find_None_iff)

lemma staged_keys_injective:
  assumes "process_row db df r1 = Staged d1" and "process_row db df r2 = Staged d2"
    and "decl_key d1 = decl_key d2" and "distinct (map fst (codigos_sac db))"
  shows "row_key df r1 = row_key df r2"
proof -
  note k1 = staged_key[OF assms(1)] and k2 = staged_key[OF assms(2)]
  from assms(3) have eq: "correlativo d1 = correlativo d2" "codigo_sac_id d1 = codigo_sac_id d2"
    "descripcion d1 = descripcion d2"
    by (simp_all add: decl_key_def)
  have "py_str (cell_at r1 (index_of ''sac'' (columns df)))
          = py_str (cell_at r2 (index_of ''sac'' (columns df)))"
    using k1(2) k2(2) eq(2) assms(4) by (metis eq_key_imp_eq_value)
  then show ?thesis using k1(1) k2(1) eq by simp
qed

lemma staged_key_not_persisted:
  assumes "process_row db df r = Staged d" and "correlativo d \<noteq> None" and "descripcion d \<noteq> None"
  shows "decl_key d \<notin> set (map (decl_key \<circ> snd) (declaraciones_importacion db))"
proof
  assume "decl_key d \<in> set (map (decl_key \<circ> snd) (declaraciones_importacion db))"
  then obtain p where p: "p \<in> set (declaraciones_importacion db)" and k: "decl_key (snd p) = decl_key d"
    by auto
  from k assms(2,3) have "sql_eq (correlativo (snd p)) (correlativo d)"
    "codigo_sac_id (snd p) = codigo_sac_id d" "sql_eq (descripcion (snd p)) (descripcion d)"
    by (auto simp: decl_key_def sql_eq_def)
  with p staged_key(3)[OF assms(1)] show False
    unfolding query_existing_None_iff by blast
qed

lemma distinct_staged_keys:
  assumes "distinct (map (row_key df) rs)" and "distinct (map fst (codigos_sac db))"
  shows "distinct (map decl_key (staged db df rs))"
  using assms(1)
proof (induction rs)
  case Nil
  show ?case by (simp add: staged_Nil)
next
  case (Cons r rs)
  from Cons have ih: "distinct (map decl_key (staged db df rs))" by simp
  show ?case
  proof (cases "process_row db df r")
    case (Staged d)
    have "decl_key d \<notin> decl_key ` set (staged db df rs)"
    proof
      assume "decl_key d \<in> decl_key ` set (staged db df rs)"
      then obtain d2 where m: "d2 \<in> set (staged db df rs)" and k: "decl_key d = decl_key d2"
        by auto
      from m obtain r2 where r2: "r2 \<in> set rs" and s2: "process_row db df r2 = Staged d2"
        unfolding staged_mem by blast
      from staged_keys_injective[OF Staged s2 k assms(2)] have "row_key df r = row_key df r2" .
      with r2 Cons.prems show False by auto
    qed
    with ih Staged show ?thesis by (simp add: staged_Cons)
  qed (use ih in \<open>simp_all add: staged_Cons\<close>)
qed

subsection \<open>The loop of the declaration pass\<close>

lemma declarations_step_session:
  "db_session (declarations_step df r st) =
     (db_session st)\<lparr>new := new (db_session st) @
        map NewDeclaracion (staged (store (db_session st)) df [r])\<rparr>"
  by (cases "process_row (store (db_session st)) df r")
    (simp_all add: declarations_step_def staged_Cons staged_Nil add_def)

lemma declarations_step_success:
  "success_count (declarations_step df r st) =
     success_count st + length (staged (store (db_session st)) df [r])"
  by (cases "process_row (store (db_session st)) df r")
    (simp_all add: declarations_step_def staged_Cons staged_Nil)

lemma staged_append_one: "staged db df (r # rs) = staged db df [r] @ staged db df rs"
  by (simp add: staged_Cons staged_Nil split: row_outcome.splits)

lemma fold_declarations_step:
  "db_session (fold (declarations_step df) rs st) =
     (db_session st)\<lparr>new := new (db_session st) @
        map NewDeclaracion (staged (store (db_session st)) df rs)\<rparr>
   \<and> success_count (fold (declarations_step df) rs st) =
       success_count st + length (staged (store (db_session st)) df rs)"
proof (induction rs arbitrary: st)
  case Nil
  show ?case by (simp add: staged_Nil)
next
  case (Cons r rs)
  let ?st = "declarations_step df r st"
  have st: "store (db_session ?st) = store (db_session st)"
    by (simp add: declarations_step_session)
  have f: "fold (declarations_step df) (r # rs) st = fold (declarations_step df) rs ?st"
    by simp
  show ?case
    unfolding f
    by (simp add: Cons.IH st declarations_step_session declarations_step_success
        staged_append_one[of _ _ r rs])
qed

lemma load_declarations_eq:
  "load_declarations df s =
     commit (s\<lparr>new := new s @ map NewDeclaracion (staged (store s) df (rows df))\<rparr>)"
  by (simp add: load_declarations_def declarations_loop_def fold_declarations_step)

lemma success_count_eq:
  "success_count (declarations_loop df s) = length (staged (store s) df (rows df))"
  by (simp add: declarations_loop_def fold_declarations_step)

text \<open>
  Claim C3, as amended.  The duplicate check of a row consults the persisted records
  only, not the records staged earlier in the same pass.  So the pass keeps the natural
  key \<open>(correlativo, codigo_sac_id, descripcion)\<close> unique in the fact table when the
  table has unique keys before the pass, the ids of \<open>codigos_sac\<close> are distinct and no
  two rows of the file agree on \<open>correlativo\<close>, \<open>str(sac)\<close> and \<open>descripcion\<close>
  (whether the commit succeeds or not).
\<close>
theorem load_declarations_unique_keys:
  assumes "new s = []"
    and "distinct (map (decl_key \<circ> snd) (declaraciones_importacion (store s)))"
    and "distinct (map fst (codigos_sac (store s)))"
    and "distinct (map (row_key df) (rows df))"
  shows "distinct (map (decl_key \<circ> snd)
           (declaraciones_importacion (store (snd (load_declarations df s)))))"
proof -
  let ?ds = "staged (store s) df (rows df)"
  have ld: "load_declarations df s = commit (s\<lparr>new := map NewDeclaracion ?ds\<rparr>)"
    using assms(1) by (simp add: load_declarations_eq)
  show ?thesis
  proof (cases "flush (map NewDeclaracion ?ds) (store s)")
    case (Inl e)
    then show ?thesis using assms(2) by (simp add: ld commit_def)
  next
    case (Inr db')
    from flush_declaraciones[OF Inr] obtain new_rows where
      db': "db' = (store s)\<lparr>declaraciones_importacion :=
                    declaraciones_importacion (store s) @ new_rows\<rparr>"
      and sn: "map snd new_rows = ?ds"
      and nn: "\<forall>d \<in> set ?ds. correlativo d \<noteq> None \<and> descripcion d \<noteq> None"
      by blast
    have keys: "map (decl_key \<circ> snd) new_rows = map decl_key ?ds"
      using sn by (metis map_map)
    have d2: "distinct (map decl_key ?ds)"
      by (rule distinct_staged_keys[OF assms(4,3)])
    have disj: "set (map (decl_key \<circ> snd) (declaraciones_importacion (store s)))
                  \<inter> set (map decl_key ?ds) = {}"
    proof (rule ccontr)
      assume "set (map (decl_key \<circ> snd) (declaraciones_importacion (store s)))
                  \<inter> set (map decl_key ?ds) \<noteq> {}"
      then obtain k where k1: "k \<in> set (map (decl_key \<circ> snd) (declaraciones_importacion (store s)))"
        and k2: "k \<in> set (map decl_key ?ds)"
        by blast
      from k2 obtain d where d: "d \<in> set ?ds" and kd: "k = decl_key d" by auto
      from d obtain r where "process_row (store s) df r = Staged d"
        unfolding staged_mem by blast
      then have "decl_key d \<notin> set (map (decl_key \<circ> snd) (declaraciones_importacion (store s)))"
        using nn d by (intro staged_key_not_persisted) auto
      with k1 kd show False by simp
    qed
    have "distinct (map (decl_key \<circ> snd) (declaraciones_importacion (store s) @ new_rows))"
      using assms(2) d2 disj by (simp add: keys)
    then show ?thesis by (simp add: ld commit_def Inr db')
  qed
qed


subsection \<open>The example rows\<close>

lemma parse_date_example:
  "parse_date (Some ''15/03/49'') = Inr \<lparr>year = 2049, month = 3, day = 15\<rparr>"
  by (simp add: parse_date_def pd_isna_def py_str_def strip_def is_space_def py_int_def is_digit_iff
      digits_value_def digit_val_def datetime_date_def fits_c_int_def days_in_month_def
      int_max_str_digits_def)

lemma safe_float_conversion_zero: "safe_float_conversion (Some ''0'') = Inr (Finite 0)"
  by (simp add: safe_float_conversion_Some strip_def is_space_def replace_char_def py_float_0)

lemma example_row_get:
  assumes "columns df = example_columns"
  shows "row_get df (example_row corr) ''correlativo'' = Inr (Some corr)"
    and "row_get df (example_row corr) ''fecha_declaracion'' = Inr (Some ''15/03/49'')"
    and "row_get df (example_row corr) ''descripcion'' = Inr (Some ''tela'')"
    and "row_get df (example_row corr) ''sac'' = Inr (Some ''1234'')"
    and "row_get df (example_row corr) ''tipo_cambio_dolar'' = Inr (Some ''0'')"
    and "row_get df (example_row corr) ''cantidad_fraccion'' = Inr (Some ''0'')"
    and "row_get df (example_row corr) ''tasa_dai'' = Inr (Some ''0'')"
    and "row_get df (example_row corr) ''valor_dai'' = Inr (Some ''0'')"
    and "row_get df (example_row corr) ''valor_cif_uds'' = Inr (Some ''0'')"
    and "row_get df (example_row corr) ''tasa_cif_cantidad_fraccion'' = Inr (Some ''0'')"
  by (simp_all add: assms row_get_def example_columns_def example_row_def cell_at_def)

lemma example_resolve_references:
  assumes "columns df = example_columns"
  shows "resolve_references (reference_db\<lparr>declaraciones_importacion := x\<rparr>) df (example_row corr)
           = Some (1, 1, 1, 1, 1)"
  by (simp add: assms resolve_references_def reference_db_def query_first_def example_columns_def
      example_row_def cell_at_def py_str_def)

lemma example_make_declaracion:
  assumes "columns df = example_columns"
  shows "make_declaracion df (example_row corr) \<lparr>year = 2049, month = 3, day = 15\<rparr> 1 1 1 1 1
           = Inr (example_declaracion corr)"
  by (simp add: make_declaracion_def float_field_def bind_def example_row_get[OF assms]
      safe_float_conversion_zero example_declaracion_def)

lemma example_required_columns:
  "list_all (\<lambda>c. c \<in> set example_columns) required_columns"
  by (simp add: required_columns_def example_columns_def)

lemma process_row_example:
  assumes "columns df = example_columns"
  shows "process_row reference_db df (example_row corr) = Staged (example_declaracion corr)"
proof -
  have r: "resolve_references reference_db df (example_row corr) = Some (1, 1, 1, 1, 1)"
    using example_resolve_references[OF assms, of "[]" corr] by (simp add: reference_db_def)
  have d: "bind (row_get df (example_row corr) ''fecha_declaracion'') parse_date
             = Inr \<lparr>year = 2049, month = 3, day = 15\<rparr>"
    by (simp add: bind_def example_row_get[OF assms] parse_date_example)
  have k: "key_fields df (example_row corr) = Inr (Some corr, Some ''tela'')"
    by (simp add: key_fields_def bind_def example_row_get[OF assms])
  have q: "query_existing (declaraciones_importacion reference_db) (Some corr) 1 (Some ''tela'') = None"
    by (simp add: reference_db_def query_existing_def)
  show ?thesis
    unfolding process_row_Staged_iff
    using r d k q example_make_declaracion[OF assms, of corr] example_required_columns
    by (simp add: assms)
qed

lemma example_floats: "NaN \<notin> set (floats_of (example_declaracion corr))"
  by (simp add: floats_of_def example_declaracion_def)

text \<open>
  Claim C3 as stated fails on a file with the same row twice: neither record is
  persisted when the second row is checked, both are staged, and the commit inserts
  two records with the same natural key.
\<close>
theorem load_declarations_duplicate_counterexample:
  "map (decl_key \<circ> snd)
     (declaraciones_importacion
        (store (snd (load_declarations duplicate_df \<lparr>store = reference_db, new = []\<rparr>))))
   = [(Some ''COR001'', 1, Some ''tela''), (Some ''COR001'', 1, Some ''tela'')]"
proof -
  have c: "columns duplicate_df = example_columns" by (simp add: duplicate_df_def)
  have st: "staged reference_db duplicate_df (rows duplicate_df)
              = [example_declaracion ''COR001'', example_declaracion ''COR001'']"
    by (simp add: duplicate_df_def staged_Cons staged_Nil process_row_example[OF c, unfolded duplicate_df_def])
  have k: "decl_key (example_declaracion ''COR001'') = (Some ''COR001'', 1, Some ''tela'')"
    by (simp add: decl_key_def example_declaracion_def)
  have nn: "correlativo (example_declaracion ''COR001'') \<noteq> None"
    "descripcion (example_declaracion ''COR001'') \<noteq> None"
    by (simp_all add: example_declaracion_def)
  let ?d = "example_declaracion ''COR001''"
  have fl: "flush [NewDeclaracion ?d, NewDeclaracion ?d] reference_db
            = Inr (reference_db\<lparr>declaraciones_importacion := [(1, ?d), (2, ?d)]\<rparr>)"
    by (simp add: map_sum_def insert_declaracion_def example_floats nn reference_db_def next_id_def)
  have ld: "load_declarations duplicate_df \<lparr>store = reference_db, new = []\<rparr>
          = commit \<lparr>store = reference_db, new = [NewDeclaracion ?d, NewDeclaracion ?d]\<rparr>"
    by (simp add: load_declarations_eq st)
  have cm: "commit \<lparr>store = reference_db, new = [NewDeclaracion ?d, NewDeclaracion ?d]\<rparr>
          = (Inr (), \<lparr>store = reference_db\<lparr>declaraciones_importacion := [(1, ?d), (2, ?d)]\<rparr>,
                      new = []\<rparr>)"
    by (simp add: commit_def fl del: flush.simps)
  show ?thesis
    by (simp only: ld cm) (simp add: k)
qed

lemma example_row_key:
  assumes "columns df = example_columns"
  shows "row_key df (example_row corr) = (Inr (Some corr), Inr ''1234'', Inr (Some ''tela''))"
  by (simp add: row_key_def example_row_get[OF assms] map_sum_def py_str_def)

theorem load_declarations_unique_keys_witness:
  "distinct (map (decl_key \<circ> snd)
     (declaraciones_importacion
        (store (snd (load_declarations distinct_df \<lparr>store = reference_db, new = []\<rparr>)))))"
proof -
  have c: "columns distinct_df = example_columns" by (simp add: distinct_df_def)
  have rk: "distinct (map (row_key distinct_df) (rows distinct_df))"
    using example_row_key[OF c] by (simp add: distinct_df_def)
  show ?thesis
    by (rule load_declarations_unique_keys) (simp_all add: rk reference_db_def)
qed

subsection \<open>Running the passes again\<close>

lemma commit_nothing: "new s = [] \<Longrightarrow> commit s = (Inr (), s)"
  by (cases s) (simp add: commit_def)

lemma commit_Inr:
  "commit s = (Inr (), s') \<Longrightarrow> flush (new s) (store s) = Inr (store s') \<and> new s' = []"
  by (auto simp: commit_def split: sum.splits)

lemma not_staged_again:
  assumes sn: "map snd new_rows = staged db df rs"
    and nn: "\<forall>d \<in> set (staged db df rs). correlativo d \<noteq> None \<and> descripcion d \<noteq> None"
  shows "staged (db\<lparr>declaraciones_importacion := declaraciones_importacion db @ new_rows\<rparr>) df rs = []"
proof (rule ccontr)
  let ?db' = "db\<lparr>declaraciones_importacion := declaraciones_importacion db @ new_rows\<rparr>"
  assume "staged ?db' df rs \<noteq> []"
  then obtain d where "d \<in> set (staged ?db' df rs)"
    by (cases "staged ?db' df rs") auto
  then obtain r where r: "r \<in> set rs" and st: "process_row ?db' df r = Staged d"
      unfolding staged_mem by blast
    from st obtain ids fecha key where
      cols: "list_all (\<lambda>c. c \<in> set (columns df)) required_columns"
      and ids: "resolve_references db df r = Some ids"
      and fe: "bind (row_get df r ''fecha_declaracion'') parse_date = Inr fecha"
      and key: "key_fields df r = Inr key"
      and ex: "query_existing (declaraciones_importacion db @ new_rows) (fst key)
             (snd (snd (snd (snd ids)))) (snd key) = None"
      and mk: "make_declaracion df r fecha (fst ids) (fst (snd ids)) (fst (snd (snd ids)))
             (fst (snd (snd (snd ids)))) (snd (snd (snd (snd ids)))) = Inr d"
      unfolding process_row_Staged_iff by (auto simp: resolve_references_declaraciones)
    from ex have ex0: "query_existing (declaraciones_importacion db) (fst key)
             (snd (snd (snd (snd ids)))) (snd key) = None"
      unfolding query_existing_None_iff by simp
    have "process_row db df r = Staged d"
      unfolding process_row_Staged_iff using cols ids fe key ex0 mk by blast
    with r have dm: "d \<in> set (staged db df rs)"
      unfolding staged_mem by blast
    then have "d \<in> snd ` set new_rows"
      using sn by (metis set_map)
    then obtain p where p: "p \<in> set new_rows" and pd: "snd p = d" by auto
    from make_declaracion_key[OF mk] key
    have k: "key = (correlativo d, descripcion d)" and c: "codigo_sac_id d = snd (snd (snd (snd ids)))"
      by simp_all
    from nn dm have "correlativo d \<noteq> None" "descripcion d \<noteq> None" by auto
    then have "sql_eq (correlativo (snd p)) (fst key)" "sql_eq (descripcion (snd p)) (snd key)"
      using pd k by (auto simp: sql_eq_def)
    with ex p pd c show False
      unfolding query_existing_None_iff by auto
qed

lemma load_master_data_missing:
  "filter (\<lambda>c. c \<notin> set (columns df)) required_columns \<noteq> [] \<Longrightarrow> load_master_data df s = (Inr (), s)"
  by (simp add: load_master_data_def)

lemma load_master_data_present:
  assumes "filter (\<lambda>c. c \<notin> set (columns df)) required_columns = []"
  shows "load_master_data df s =
     commit (s\<lparr>new := new s
        @ map NewAduana (absent (aduanas (store s)) df ''aduana'')
        @ map NewPais (absent (paises (store s)) df ''pais'')
        @ map NewTipoRegimen (absent (tipos_regimen (store s)) df ''tipo_regimen'')
        @ map NewUnidadMedida (absent (unidades_medida (store s)) df ''tipo_unidad_medida'')
        @ map NewCodigoSAC (absent (codigos_sac (store s)) df ''sac'')\<rparr>)"
  using assms by (simp add: load_master_data_def load_category_eq absent_def)

lemma absent_or_present:
  "n \<in> set (unique (dropna (column_values df col))) \<Longrightarrow>
     n \<in> snd ` set tbl \<or> n \<in> set (absent tbl df col)"
  by (auto simp: absent_def)

lemma absent_Nil:
  "set (unique (dropna (column_values df col))) \<subseteq> snd ` set tbl \<Longrightarrow> absent tbl df col = []"
  by (auto simp: absent_def filter_empty_conv)

lemma names_after_flush:
  assumes "snd ` set tbl' = snd ` set tbl \<union> X" and "set (absent tbl df col) \<subseteq> X"
  shows "set (unique (dropna (column_values df col))) \<subseteq> snd ` set tbl'"
  using assms by (auto simp: absent_def)

lemma load_master_data_loaded:
  assumes "new s = []" and "load_master_data df s = (Inr (), s1)"
    and "filter (\<lambda>c. c \<notin> set (columns df)) required_columns = []"
  shows "new s1 = [] \<and> names_loaded df (store s1)"
proof -
  let ?pend = "map NewAduana (absent (aduanas (store s)) df ''aduana'')
        @ map NewPais (absent (paises (store s)) df ''pais'')
        @ map NewTipoRegimen (absent (tipos_regimen (store s)) df ''tipo_regimen'')
        @ map NewUnidadMedida (absent (unidades_medida (store s)) df ''tipo_unidad_medida'')
        @ map NewCodigoSAC (absent (codigos_sac (store s)) df ''sac'')"
  have "commit (s\<lparr>new := ?pend\<rparr>) = (Inr (), s1)"
    using assms(1,2) load_master_data_present[OF assms(3), of s] by simp
  from commit_Inr[OF this] have fl: "flush ?pend (store s) = Inr (store s1)" and n1: "new s1 = []"
    by simp_all
  note fn = flush_names[OF fl]
  have "names_loaded df (store s1)"
    unfolding names_loaded_def
  proof (intro conjI)
    show "set (unique (dropna (column_values df ''aduana''))) \<subseteq> snd ` set (aduanas (store s1))"
      by (rule names_after_flush[of _ "aduanas (store s)"]) (use fn in auto)
    show "set (unique (dropna (column_values df ''pais''))) \<subseteq> snd ` set (paises (store s1))"
      by (rule names_after_flush[of _ "paises (store s)"]) (use fn in auto)
    show "set (unique (dropna (column_values df ''tipo_regimen'')))
            \<subseteq> snd ` set (tipos_regimen (store s1))"
      by (rule names_after_flush[of _ "tipos_regimen (store s)"]) (use fn in auto)
    show "set (unique (dropna (column_values df ''tipo_unidad_medida'')))
            \<subseteq> snd ` set (unidades_medida (store s1))"
      by (rule names_after_flush[of _ "unidades_medida (store s)"]) (use fn in auto)
    show "set (unique (dropna (column_values df ''sac''))) \<subseteq> snd ` set (codigos_sac (store s1))"
      by (rule names_after_flush[of _ "codigos_sac (store s)"]) (use fn in auto)
  qed
  with n1 show ?thesis by simp
qed

lemma load_master_data_again:
  assumes "new s = []" and "names_loaded df (store s)"
  shows "load_master_data df s = (Inr (), s)"
proof (cases "filter (\<lambda>c. c \<notin> set (columns df)) required_columns = []")
  case True
  have "load_master_data df s = commit (s\<lparr>new := []\<rparr>)"
    using assms absent_Nil
    by (simp add: load_master_data_present[OF True] names_loaded_def absent_Nil)
  also have "s\<lparr>new := []\<rparr> = s" using assms(1) by (cases s) simp
  finally show ?thesis using assms(1) by (simp add: commit_nothing)
next
  case False
  then show ?thesis by (rule load_master_data_missing)
qed

lemma names_loaded_declaraciones:
  "names_loaded df (db\<lparr>declaraciones_importacion := x\<rparr>) = names_loaded df db"
  by (simp add: names_loaded_def)


text \<open>
  Claim C2, as amended.  Running the two loading passes again over a dataframe that they
  have loaded successfully changes nothing: the second run succeeds, adds no row to any
  of the five reference tables, stages no declaration (its success count is 0) and
  leaves the session and the database as they were.
\<close>
theorem load_passes_idempotent:
  assumes "new s = []" and "load_passes df s = (Inr (), s')"
  shows "load_passes df s' = (Inr (), s')
    \<and> staged (store s') df (rows df) = []
    \<and> success_count (declarations_loop df s') = 0"
proof -
  from assms(2) obtain s1 where m: "load_master_data df s = (Inr (), s1)"
    and d: "load_declarations df s1 = (Inr (), s')"
    by (auto simp: load_passes_def split: prod.splits sum.splits)
  let ?missing = "filter (\<lambda>c. c \<notin> set (columns df)) required_columns"
  have n1: "new s1 = []" and nl: "?missing = [] \<Longrightarrow> names_loaded df (store s1)"
  proof -
    show "new s1 = []"
    proof (cases "?missing = []")
      case True
      from load_master_data_loaded[OF assms(1) m True] show ?thesis by simp
    next
      case False
      from load_master_data_missing[OF False, of s] m assms(1) show ?thesis by simp
    qed
    show "?missing = [] \<Longrightarrow> names_loaded df (store s1)"
      using load_master_data_loaded[OF assms(1) m] by simp
  qed
  let ?ds = "staged (store s1) df (rows df)"
  from d n1 have "commit (s1\<lparr>new := map NewDeclaracion ?ds\<rparr>) = (Inr (), s')"
    by (simp add: load_declarations_eq)
  from commit_Inr[OF this] have fl: "flush (map NewDeclaracion ?ds) (store s1) = Inr (store s')"
    and n': "new s' = []"
    by simp_all
  from flush_declaraciones[OF fl] obtain new_rows where
    st': "store s' = (store s1)\<lparr>declaraciones_importacion :=
                    declaraciones_importacion (store s1) @ new_rows\<rparr>"
    and sn: "map snd new_rows = ?ds"
    and nn: "\<forall>d \<in> set ?ds. correlativo d \<noteq> None \<and> descripcion d \<noteq> None"
    by blast
  have none: "staged (store s') df (rows df) = []"
    unfolding st' by (rule not_staged_again[OF sn nn])
  have master: "load_master_data df s' = (Inr (), s')"
  proof (cases "?missing = []")
    case True
    have "names_loaded df (store s')"
      unfolding st' names_loaded_declaraciones by (rule nl[OF True])
    with n' show ?thesis by (rule load_master_data_again)
  next
    case False
    then show ?thesis by (rule load_master_data_missing)
  qed
  have "s'\<lparr>new := []\<rparr> = s'" using n' by (cases s') simp
  then have decl: "load_declarations df s' = (Inr (), s')"
    using n' by (simp add: load_declarations_eq none commit_nothing)
  have "success_count (declarations_loop df s') = 0"
    by (simp add: success_count_eq none)
  with master decl none show ?thesis
    by (simp add: load_passes_def)
qed

subsection \<open>The example file, loaded\<close>

lemma single_df_column_values:
  "column_values single_df ''aduana'' = [Some ''PuertoX'']"
  "column_values single_df ''pais'' = [Some ''CountryY'']"
  "column_values single_df ''tipo_regimen'' = [Some ''Import'']"
  "column_values single_df ''tipo_unidad_medida'' = [Some ''KG'']"
  "column_values single_df ''sac'' = [Some ''1234'']"
  by (simp_all add: column_values_def single_df_def example_columns_def example_row_def cell_at_def)

lemma absent_single:
  "absent [] single_df ''aduana'' = [''PuertoX'']"
  "absent [] single_df ''pais'' = [''CountryY'']"
  "absent [] single_df ''tipo_regimen'' = [''Import'']"
  "absent [] single_df ''tipo_unidad_medida'' = [''KG'']"
  "absent [] single_df ''sac'' = [''1234'']"
  by (simp_all add: absent_def single_df_column_values dropna_def unique_def map_filter_simps)

lemma single_df_no_missing:
  "filter (\<lambda>c. c \<notin> set (columns single_df)) required_columns = []"
  by (simp add: single_df_def example_columns_def required_columns_def)

lemma load_master_data_single:
  "load_master_data single_df \<lparr>store = empty_db, new = []\<rparr>
     = (Inr (), \<lparr>store = reference_db, new = []\<rparr>)"
proof -
  have "load_master_data single_df \<lparr>store = empty_db, new = []\<rparr>
          = commit \<lparr>store = empty_db,
                    new = [NewAduana ''PuertoX'', NewPais ''CountryY'', NewTipoRegimen ''Import'',
                           NewUnidadMedida ''KG'', NewCodigoSAC ''1234'']\<rparr>"
    by (simp add: load_master_data_present[OF single_df_no_missing] empty_db_def absent_single)
  also have "\<dots> = (Inr (), \<lparr>store = reference_db, new = []\<rparr>)"
    by (simp add: commit_def empty_db_def reference_db_def map_sum_def insert_ref_def next_id_def)
  finally show ?thesis .
qed

lemma load_declarations_single:
  "load_declarations single_df \<lparr>store = reference_db, new = []\<rparr>
     = (Inr (), \<lparr>store = loaded_db, new = []\<rparr>)"
proof -
  have c: "columns single_df = example_columns" by (simp add: single_df_def)
  let ?d = "example_declaracion ''COR001''"
  have st: "staged reference_db single_df (rows single_df) = [?d]"
    by (simp add: single_df_def staged_Cons staged_Nil process_row_example[OF c, unfolded single_df_def])
  have nn: "correlativo ?d \<noteq> None" "descripcion ?d \<noteq> None"
    by (simp_all add: example_declaracion_def)
  have fl: "flush [NewDeclaracion ?d] reference_db = Inr loaded_db"
    by (simp add: map_sum_def insert_declaracion_def example_floats nn reference_db_def next_id_def
        loaded_db_def)
  have "load_declarations single_df \<lparr>store = reference_db, new = []\<rparr>
          = commit \<lparr>store = reference_db, new = [NewDeclaracion ?d]\<rparr>"
    by (simp add: load_declarations_eq st)
  also have "\<dots> = (Inr (), \<lparr>store = loaded_db, new = []\<rparr>)"
    by (simp add: commit_def fl del: flush.simps)
  finally show ?thesis .
qed

lemma load_passes_single:
  "load_passes single_df \<lparr>store = empty_db, new = []\<rparr> = (Inr (), \<lparr>store = loaded_db, new = []\<rparr>)"
  by (simp add: load_passes_def load_master_data_single load_declarations_single)

theorem load_passes_idempotent_witness:
  "load_passes single_df \<lparr>store = loaded_db, new = []\<rparr> = (Inr (), \<lparr>store = loaded_db, new = []\<rparr>)
   \<and> staged loaded_db single_df (rows single_df) = []
   \<and> success_count (declarations_loop single_df \<lparr>store = loaded_db, new = []\<rparr>) = 0"
  using load_passes_idempotent[of "\<lparr>store = empty_db, new = []\<rparr>" single_df
      "\<lparr>store = loaded_db, new = []\<rparr>"] load_passes_single
  by simp

text \<open>
  Claim C2 as stated fails: on a file whose only row is loaded already, \<open>load_csv_data\<close>
  returns an error result, not a success with zero rows; and its results carry no count
  of duplicate rows.
\<close>
theorem load_csv_data_second_run_counterexample:
  "load_csv_data single_file_env loaded_db = (StatusError (StrOf AttributeError), loaded_db)"
proof -
  have p: "path_exists single_file_env" by (simp add: single_file_env_def)
  have r: "read_csv_robust single_file_env = Some single_df"
    by (simp add: read_csv_robust_def single_file_env_def)
  have c: "create_all single_file_env = None" by (simp add: single_file_env_def)
  show ?thesis
    using load_csv_data_error[OF p r, of loaded_db] by (simp add: c prod_eq_iff)
qed

end
